theory Spec2Isabelle
  imports Main
begin

section \<open>JavaScript values and rendered elements\<close>

text \<open>
  The repository is a set of React teaching examples. Each example is a function component:
  it reads its state, returns a tree of elements, and attaches handlers to elements of that
  tree. The embedding keeps that shape. A component is a function from its state to an
  \<open>element\<close>; a handler is the state update it performs (the argument of the \<open>setX\<close> call it
  makes), so that a handler built from the state captured at render time
  (\<open>() => setCount(count + 1)\<close>) is a constant function and an updater
  (\<open>setTheme((prevTheme) => ...)\<close>) is a function of the previous state.

  JavaScript values are the JSON-like values the examples handle. A number is a double; the
  examples only hold integer-valued ones, kept here as integers, and their arithmetic rounds
  as double arithmetic does (see \<open>js_add\<close> below). \<open>console.log\<close> calls have no effect
  on state and are left out of the rendered handlers.
\<close>

datatype js_value =
    JUndefined
  | JNull
  | JBool bool
  | JNum int
  | JStr string
  | JArr "js_value list"
  | JObj "(string \<times> js_value) list"

text \<open>The primitive kinds a piece of UI state can have: boolean, number, string.\<close>

fun is_primitive :: "js_value \<Rightarrow> bool" where
  "is_primitive (JBool b) = True"
| "is_primitive (JNum n) = True"
| "is_primitive (JStr s) = True"
| "is_primitive v = False"

text \<open>
  Arithmetic on integer-valued doubles. Doubles carry 53 significant bits: every integer of
  magnitude up to \<open>2^53\<close> is a double, and from there on doubles are \<open>spacing\<close> apart
  (2 up to \<open>2^54\<close>, then 4, and so on). The result of an operation is the exact result
  rounded to the nearest double, a tie going to the double whose last bit is even. So
  \<open>count + 1\<close> is \<open>count + 1\<close> as long as that is at most \<open>2^53\<close>, and
  \<open>2^53 + 1\<close> is \<open>2^53\<close> again. Results beyond the largest double (about \<open>2^1024\<close>)
  do not arise from the examples and are not modelled, and an integer that is not a double
  is not a value the program can hold.
\<close>

function spacing :: "nat \<Rightarrow> nat" where
  "spacing a = (if a < 2 ^ 53 then 1 else 2 * spacing (a div 2))"
  by pat_completeness auto
termination
  by (relation "measure id") auto

declare spacing.simps [simp del]

definition js_round :: "int \<Rightarrow> int" where
  "js_round x =
     (let a = nat \<bar>x\<bar>; q = spacing a; m = a div q; r = a mod q;
          m' = (if 2 * r < q then m else if q < 2 * r then m + 1
                else if even m then m else m + 1)
      in sgn x * int (m' * q))"

definition js_add :: "int \<Rightarrow> int \<Rightarrow> int" where
  "js_add a b = js_round (a + b)"

definition js_mul :: "int \<Rightarrow> int \<Rightarrow> int" where
  "js_mul a b = js_round (a * b)"

datatype 's listener =
    OnClick "'s \<Rightarrow> 's"
  | OnChange "string \<Rightarrow> 's \<Rightarrow> 's"

text \<open>
  An element has a tag, its props (\<open>style\<close>, \<open>className\<close>, ...), the listeners passed as
  \<open>onClick\<close>/\<open>onChange\<close> props, and children. \<open>Text\<close> is literal JSX text, \<open>Expr\<close> a value
  in braces.
\<close>

datatype 's element =
    Text string
  | Expr js_value
  | Element string "(string \<times> js_value) list" "'s listener list" "'s element list"

fun listeners :: "'s element \<Rightarrow> (string \<times> 's listener) list" where
  "listeners (Text t) = []"
| "listeners (Expr v) = []"
| "listeners (Element tg ps ls kids) = map (Pair tg) ls @ concat (map listeners kids)"

fun children :: "'s element \<Rightarrow> 's element list" where
  "children (Element tg ps ls kids) = kids"
| "children el = []"

text \<open>Reading a property of an object value: \<open>undefined\<close> when it is absent.\<close>

fun field :: "js_value \<Rightarrow> string \<Rightarrow> js_value" where
  "field (JObj ps) k = (case map_of ps k of None \<Rightarrow> JUndefined | Some v \<Rightarrow> v)"
| "field v k = JUndefined"

text \<open>
  A component that keeps its own \<open>useState\<close> cell is placed on a page by lifting its
  listeners to the page state: \<open>upd\<close> is the update of the cell that belongs to this
  component instance.
\<close>

fun embed_listener :: "(('a \<Rightarrow> 'a) \<Rightarrow> 's \<Rightarrow> 's) \<Rightarrow> 'a listener \<Rightarrow> 's listener" where
  "embed_listener upd (OnClick h) = OnClick (upd h)"
| "embed_listener upd (OnChange h) = OnChange (\<lambda>v. upd (h v))"

fun embed :: "(('a \<Rightarrow> 'a) \<Rightarrow> 's \<Rightarrow> 's) \<Rightarrow> 'a element \<Rightarrow> 's element" where
  "embed upd (Text t) = Text t"
| "embed upd (Expr v) = Expr v"
| "embed upd (Element tg ps ls kids) =
     Element tg ps (map (embed_listener upd) ls) (map (embed upd) kids)"

text \<open>
  The body of a handler, statement by statement, for the question of what a handler has left
  behind when it returns. The handlers of the examples call state setters, assign to a ref,
  log, and register or cancel an interval callback. \<open>effect\<close> is what the setter calls and
  assignments of a body do to the state, in order; \<open>registered\<close> are the callbacks the body
  has handed to the browser to be run later. A body is synchronous when there are none: all
  it does is done when it returns.
\<close>

datatype 's statement =
    Set_state "'s \<Rightarrow> 's"
  | Assign_ref "'s \<Rightarrow> 's"
  | Console_log
  | Set_interval "'s statement list"
  | Clear_interval

fun effect :: "'s statement list \<Rightarrow> 's \<Rightarrow> 's" where
  "effect [] s = s"
| "effect (Set_state f # rest) s = effect rest (f s)"
| "effect (Assign_ref f # rest) s = effect rest (f s)"
| "effect (stmt # rest) s = effect rest s"

fun registered :: "'s statement list \<Rightarrow> 's statement list list" where
  "registered [] = []"
| "registered (Set_interval callback # rest) = callback # registered rest"
| "registered (stmt # rest) = registered rest"

definition synchronous :: "'s statement list \<Rightarrow> bool" where
  "synchronous body \<longleftrightarrow> registered body = []"

section \<open>Events and steps\<close>

text \<open>
  What can make an example's state move: a click or a change event on an element with a given
  tag (a change event carries the new value of the input, \<open>e.target.value\<close>), the mount of
  a component (its \<open>useEffect\<close> runs), and the settling of a promise an \<open>async\<close> function
  awaits. A promise is fulfilled with a value or rejected with an error, of which the
  examples read only the \<open>message\<close>. The response of \<open>fetch\<close> is opaque: its body arrives
  with the promise of \<open>response.json()\<close>.
\<close>

datatype response = Response

datatype 'a settled = Fulfilled 'a | Rejected string

datatype event =
    Click string
  | Change string string
  | Mount
  | Fetch_settled "response settled"
  | Json_settled "js_value settled"

fun is_button_click :: "event \<Rightarrow> bool" where
  "is_button_click (Click tg) = (tg = ''button'')"
| "is_button_click ev = False"

fun respond :: "event \<Rightarrow> string \<times> 's listener \<Rightarrow> 's \<Rightarrow> 's list" where
  "respond (Click tg) (tg', OnClick h) s = (if tg = tg' then [h s] else [])"
| "respond (Change tg v) (tg', OnChange h) s = (if tg = tg' then [h v s] else [])"
| "respond ev l s = []"

definition successors :: "('s \<Rightarrow> 's element) \<Rightarrow> event \<Rightarrow> 's \<Rightarrow> 's list" where
  "successors render ev s = concat (map (\<lambda>l. respond ev l s) (listeners (render s)))"

text \<open>
  The step relation of a component: event \<open>ev\<close> takes state \<open>s\<close> to \<open>s'\<close> when the tree
  rendered from \<open>s\<close> has a listener for \<open>ev\<close> whose update gives \<open>s'\<close>.
\<close>

definition ui_step :: "('s \<Rightarrow> 's element) \<Rightarrow> 's \<Rightarrow> event \<Rightarrow> 's \<Rightarrow> bool" where
  "ui_step render s ev s' \<longleftrightarrow> s' \<in> set (successors render ev s)"

section \<open>The context-api demo\<close>

text \<open>
  \<open>context/ThemeContext.jsx\<close> and \<open>context/AuthContext.jsx\<close> each declare one \<open>useState\<close>
  cell in a provider; \<open>App.jsx\<close> mounts both providers around \<open>Navbar\<close>, \<open>ThemedButton\<close>
  and \<open>AuthButton\<close>. The state of the mounted tree is the pair of cells.
\<close>

record ctx_state =
  theme :: string
  isAuthenticated :: bool

definition ctx_initial :: ctx_state where
  "ctx_initial = \<lparr>theme = ''light'', isAuthenticated = False\<rparr>"

definition setTheme :: "(string \<Rightarrow> string) \<Rightarrow> ctx_state \<Rightarrow> ctx_state" where
  "setTheme f s = s\<lparr>theme := f (theme s)\<rparr>"

definition toggleTheme :: "ctx_state \<Rightarrow> ctx_state" where
  "toggleTheme = setTheme (\<lambda>prevTheme. if prevTheme = ''light'' then ''dark'' else ''light'')"

definition setIsAuthenticated :: "bool \<Rightarrow> ctx_state \<Rightarrow> ctx_state" where
  "setIsAuthenticated v s = s\<lparr>isAuthenticated := v\<rparr>"

definition login :: "ctx_state \<Rightarrow> ctx_state" where
  "login = setIsAuthenticated True"

definition logout :: "ctx_state \<Rightarrow> ctx_state" where
  "logout = setIsAuthenticated False"

text \<open>The context values the providers pass down, as the two custom hooks return them.\<close>

definition useTheme :: "ctx_state \<Rightarrow> string \<times> (ctx_state \<Rightarrow> ctx_state)" where
  "useTheme s = (theme s, toggleTheme)"

definition useAuth ::
  "ctx_state \<Rightarrow> bool \<times> (ctx_state \<Rightarrow> ctx_state) \<times> (ctx_state \<Rightarrow> ctx_state)" where
  "useAuth s = (isAuthenticated s, login, logout)"

definition ThemedButton :: "ctx_state \<Rightarrow> ctx_state element" where
  "ThemedButton s =
     (case useTheme s of (theme', toggleTheme') \<Rightarrow>
        Element ''button''
          [(''style'', JObj
             [(''backgroundColor'', JStr (if theme' = ''light'' then ''#fff'' else ''#333'')),
              (''color'', JStr (if theme' = ''light'' then ''#000'' else ''#fff'')),
              (''padding'', JStr ''10px 20px''),
              (''border'', JStr ''none''),
              (''borderRadius'', JStr ''5px''),
              (''cursor'', JStr ''pointer'')])]
          [OnClick toggleTheme']
          [Text ''Toggle Theme (Current: '', Expr (JStr theme'), Text '')''])"

definition AuthButton :: "ctx_state \<Rightarrow> ctx_state element" where
  "AuthButton s =
     (case useAuth s of (isAuthenticated', login', logout') \<Rightarrow>
        Element ''button''
          [(''style'', JObj
             [(''padding'', JStr ''10px 20px''),
              (''margin'', JStr ''10px''),
              (''border'', JStr ''none''),
              (''borderRadius'', JStr ''5px''),
              (''backgroundColor'', JStr (if isAuthenticated' then ''#d9534f'' else ''#5cb85c'')),
              (''color'', JStr ''#fff''),
              (''cursor'', JStr ''pointer'')])]
          [OnClick (if isAuthenticated' then logout' else login')]
          [Expr (JStr (if isAuthenticated' then ''Logout'' else ''Login''))])"

definition Navbar :: "ctx_state \<Rightarrow> ctx_state element" where
  "Navbar s =
     (case (useTheme s, useAuth s) of ((theme', toggleTheme'), (isAuthenticated', login', logout')) \<Rightarrow>
        Element ''nav''
          [(''style'', JObj
             [(''backgroundColor'', JStr (if theme' = ''light'' then ''#f4f4f4'' else ''#222'')),
              (''color'', JStr (if theme' = ''light'' then ''#000'' else ''#fff'')),
              (''padding'', JStr ''10px''),
              (''textAlign'', JStr ''center'')])]
          []
          [Element ''h1'' [] [] [Text ''My Themed App''],
           Element ''p'' [] []
             [Expr (JStr (if isAuthenticated' then ''Welcome, User!'' else ''Please log in.''))]])"

definition Context_App :: "ctx_state \<Rightarrow> ctx_state element" where
  "Context_App s =
     Element ''ThemeProvider'' [] []
       [Element ''AuthProvider'' [] []
          [Navbar s,
           Element ''div''
             [(''style'', JObj [(''textAlign'', JStr ''center''), (''marginTop'', JStr ''20px'')])]
             []
             [ThemedButton s, AuthButton s]]]"

text \<open>
  The bodies of the three functions the providers hand out: \<open>ThemedButton\<close> passes
  \<open>toggleTheme\<close> as its click handler, \<open>AuthButton\<close> passes \<open>logout\<close> or \<open>login\<close>.
\<close>

definition toggleTheme_body :: "ctx_state statement list" where
  "toggleTheme_body =
     [Set_state (setTheme (\<lambda>prevTheme. if prevTheme = ''light'' then ''dark'' else ''light''))]"

definition login_body :: "ctx_state statement list" where
  "login_body = [Set_state (setIsAuthenticated True)]"

definition logout_body :: "ctx_state statement list" where
  "logout_body = [Set_state (setIsAuthenticated False)]"

text \<open>The states the mounted demo can reach from its initial state by UI events.\<close>

inductive ctx_reachable :: "ctx_state \<Rightarrow> bool" where
  ctx_init: "ctx_reachable ctx_initial"
| ctx_next: "ctx_reachable s \<Longrightarrow> ui_step Context_App s ev s' \<Longrightarrow> ctx_reachable s'"

section \<open>Demos with a local \<open>useState\<close> cell\<close>

text \<open>\<open>Counter\<close> of the reconciliation notes: \<open>useState(0)\<close>, incremented by its button.\<close>

definition Counter_initial :: int where
  "Counter_initial = 0"

definition Counter :: "int \<Rightarrow> int element" where
  "Counter count =
     Element ''div'' [] []
       [Element ''h1'' [] [] [Text ''Counter: '', Expr (JNum count)],
        Element ''button'' [] [OnClick (\<lambda>_. js_add count 1)] [Text ''Increment'']]"

text \<open>The body of the button's click handler, \<open>() => setCount(count + 1)\<close>.\<close>

definition Counter_onClick :: "int \<Rightarrow> int statement list" where
  "Counter_onClick count = [Set_state (\<lambda>_. js_add count 1)]"

text \<open>
  The \<open>useCallback\<close> demo: \<open>Parent\<close> holds \<open>count\<close> and passes \<open>handleClick\<close>, which only
  logs, to \<open>Child\<close>. \<open>Search\<close> of the same notes holds \<open>query\<close> and sets it from the input's
  change event.
\<close>

definition Child :: "('s \<Rightarrow> 's) \<Rightarrow> 's element" where
  "Child handleClick = Element ''button'' [] [OnClick handleClick] [Text ''Click Me'']"

definition Parent :: "int \<Rightarrow> int element" where
  "Parent count =
     (let handleClick = (\<lambda>st. st) in
      Element ''div'' [] []
        [Element ''h2'' [] [] [Text ''Count: '', Expr (JNum count)],
         Element ''button'' [] [OnClick (\<lambda>_. js_add count 1)] [Text ''Increment''],
         Child handleClick])"

text \<open>
  The bodies of \<open>handleClick\<close>, which logs and touches no state, and of the click handler
  of \<open>Increment\<close>.
\<close>

definition Parent_handleClick :: "'s statement list" where
  "Parent_handleClick = [Console_log]"

definition Parent_onClick :: "int \<Rightarrow> int statement list" where
  "Parent_onClick count = [Set_state (\<lambda>_. js_add count 1)]"

definition Search_initial :: string where
  "Search_initial = []"

definition Search :: "string \<Rightarrow> string element" where
  "Search query =
     (let handleChange = (\<lambda>value _. value) in
      Element ''input''
        [(''type'', JStr ''text''), (''placeholder'', JStr ''Search...'')]
        [OnChange handleChange] [])"

text \<open>\<open>handleChange\<close> sets the query and calls \<open>fetchResults\<close>, which logs.\<close>

definition Search_handleChange :: "string \<Rightarrow> string statement list" where
  "Search_handleChange value = [Set_state (\<lambda>_. value), Console_log]"

text \<open>
  The \<open>useMemo\<close> demo \<open>WithUseMemo\<close>: two cells, \<open>count\<close> and \<open>number\<close>; the memoised
  value is \<open>number * 2\<close> (the empty billion-step loop before it changes nothing), and
  \<open>useMemo\<close> returns what recomputing would. \<open>setNumber\<close> is never called.
\<close>

record memo_state =
  count :: int
  number :: int

definition WithUseMemo_initial :: memo_state where
  "WithUseMemo_initial = \<lparr>count = 0, number = 10\<rparr>"

definition WithUseMemo :: "memo_state \<Rightarrow> memo_state element" where
  "WithUseMemo s =
     (let computedValue = js_mul (number s) 2 in
      Element ''div'' [] []
        [Element ''h2'' [] [] [Text ''Expensive Computation: '', Expr (JNum computedValue)],
         Element ''button'' [] [OnClick (\<lambda>st. st\<lparr>count := js_add (count s) 1\<rparr>)]
           [Text ''Increase Count ('', Expr (JNum (count s)), Text '')'']])"

text \<open>The body of the button's click handler, \<open>() => setCount(count + 1)\<close>.\<close>

definition WithUseMemo_onClick :: "memo_state \<Rightarrow> memo_state statement list" where
  "WithUseMemo_onClick s = [Set_state (\<lambda>st. st\<lparr>count := js_add (count s) 1\<rparr>)]"

section \<open>The CSS-toggling demos and their page\<close>

definition Using_Inline_Style :: "bool \<Rightarrow> bool element" where
  "Using_Inline_Style isActive =
     (let styles = JObj [(''color'', JStr (if isActive then ''red'' else ''blue'')),
                         (''fontSize'', JStr ''20px''),
                         (''padding'', JStr ''10px'')] in
      Element ''div'' [] []
        [Element ''h1'' [] [] [Text ''Using Inline Style''],
         Element ''p'' [(''style'', styles)] [] [Text ''This text changes color dynamically!''],
         Element ''button'' [] [OnClick (\<lambda>_. \<not> isActive)] [Text ''Toggle Color'']])"

definition Using_CSS_Classes :: "bool \<Rightarrow> bool element" where
  "Using_CSS_Classes isDark =
     Element ''Fragment'' [] []
       [Element ''h1'' [] [] [Text ''Using CSS Classes''],
        Element ''div'' [(''className'', JStr (if isDark then ''dark-mode'' else ''light-mode''))] []
          [Element ''p'' [] [] [Text ''This background changes dynamically!''],
           Element ''button'' [] [OnClick (\<lambda>_. \<not> isDark)] [Text ''Toggle Theme'']]]"

text \<open>
  \<open>CSSModule.module.css\<close> is not part of the sources: the object it exports is the
  parameter \<open>styles\<close>.
\<close>

definition Using_CSS_Modules :: "js_value \<Rightarrow> bool \<Rightarrow> bool element" where
  "Using_CSS_Modules styles isSuccess =
     Element ''Fragment'' [] []
       [Element ''h1'' [] [] [Text ''Using CSS Modules''],
        Element ''div''
          [(''className'', if isSuccess then field styles ''success'' else field styles ''error'')] []
          [Text ''Message: '', Expr (JStr (if isSuccess then ''Success'' else ''Error'')),
           Element ''button'' [] [OnClick (\<lambda>_. \<not> isSuccess)] [Text ''Toggle'']]]"

text \<open>The styled \<open>Button\<close>: a \<open>button\<close> whose generated CSS depends on the \<open>primary\<close> prop.\<close>

definition Button :: "bool \<Rightarrow> 's element list \<Rightarrow> 's element" where
  "Button primary kids =
     Element ''button''
       [(''primary'', JBool primary),
        (''css'', JObj [(''background-color'', JStr (if primary then ''blue'' else ''gray'')),
                        (''color'', JStr ''white''),
                        (''padding'', JStr ''10px''),
                        (''border'', JStr ''none''),
                        (''cursor'', JStr ''pointer'')])]
       [] kids"

definition Using_Styled_Components :: "bool \<Rightarrow> bool element" where
  "Using_Styled_Components primary =
     Element ''Fragment'' [] []
       [Element ''h1'' [] [] [Text ''Using Styled Components''],
        Element ''div'' [] []
          [Button primary [Text ''Styled Button''],
           Element ''button'' [] [OnClick (\<lambda>_. \<not> primary)] [Text ''Toggle Style'']]]"

definition Using_Emotion :: "bool \<Rightarrow> bool element" where
  "Using_Emotion isActive =
     (let dynamicStyle = JObj [(''color'', JStr (if isActive then ''red'' else ''blue'')),
                               (''font-size'', JStr ''20px''),
                               (''padding'', JStr ''10px'')] in
      Element ''div'' [] []
        [Element ''h1'' [] [] [Text ''Using Emotion''],
         Element ''p'' [(''css'', dynamicStyle)] [] [Text ''This text changes color dynamically!''],
         Element ''button'' [] [OnClick (\<lambda>_. \<not> isActive)] [Text ''Toggle Color'']])"

text \<open>The click handlers of the five components: each sets its cell to the negation.\<close>

definition Using_Inline_Style_onClick :: "bool \<Rightarrow> bool statement list" where
  "Using_Inline_Style_onClick isActive = [Set_state (\<lambda>_. \<not> isActive)]"

definition Using_CSS_Classes_onClick :: "bool \<Rightarrow> bool statement list" where
  "Using_CSS_Classes_onClick isDark = [Set_state (\<lambda>_. \<not> isDark)]"

definition Using_CSS_Modules_onClick :: "bool \<Rightarrow> bool statement list" where
  "Using_CSS_Modules_onClick isSuccess = [Set_state (\<lambda>_. \<not> isSuccess)]"

definition Using_Styled_Components_onClick :: "bool \<Rightarrow> bool statement list" where
  "Using_Styled_Components_onClick primary = [Set_state (\<lambda>_. \<not> primary)]"

definition Using_Emotion_onClick :: "bool \<Rightarrow> bool statement list" where
  "Using_Emotion_onClick isActive = [Set_state (\<lambda>_. \<not> isActive)]"

text \<open>
  \<open>App.jsx\<close> of the CSS project shows the five components one after the other. Each instance
  owns one cell of the page state.
\<close>

record css_page =
  inline_isActive :: bool
  isDark :: bool
  isSuccess :: bool
  primary :: bool
  emotion_isActive :: bool

definition CSS_initial :: css_page where
  "CSS_initial = \<lparr>inline_isActive = False, isDark = False, isSuccess = True,
                   primary = False, emotion_isActive = False\<rparr>"

definition Inline_Style_on_page :: "css_page \<Rightarrow> css_page element" where
  "Inline_Style_on_page p = embed inline_isActive_update (Using_Inline_Style (inline_isActive p))"

definition CSS_Classes_on_page :: "css_page \<Rightarrow> css_page element" where
  "CSS_Classes_on_page p = embed isDark_update (Using_CSS_Classes (isDark p))"

definition CSS_Modules_on_page :: "js_value \<Rightarrow> css_page \<Rightarrow> css_page element" where
  "CSS_Modules_on_page styles p = embed isSuccess_update (Using_CSS_Modules styles (isSuccess p))"

definition Styled_Components_on_page :: "css_page \<Rightarrow> css_page element" where
  "Styled_Components_on_page p = embed primary_update (Using_Styled_Components (primary p))"

definition Emotion_on_page :: "css_page \<Rightarrow> css_page element" where
  "Emotion_on_page p = embed emotion_isActive_update (Using_Emotion (emotion_isActive p))"

definition CSS_App :: "js_value \<Rightarrow> css_page \<Rightarrow> css_page element" where
  "CSS_App styles p =
     Element ''Fragment'' [] []
       [Element ''div'' [] []
          [Inline_Style_on_page p,
           Element ''hr'' [] [] [],
           CSS_Classes_on_page p,
           Element ''hr'' [] [] [],
           CSS_Modules_on_page styles p,
           Element ''hr'' [] [] [],
           Styled_Components_on_page p,
           Element ''hr'' [] [] [],
           Emotion_on_page p]]"

section \<open>The timer of the \<open>useRef\<close> notes\<close>

text \<open>
  \<open>Timer\<close> holds \<open>time\<close> in a \<open>useState\<close> cell and the id of its interval in the ref
  \<open>timerRef\<close> (here: whether the ref holds an id or \<open>null\<close>). \<open>startTimer\<close>, when the
  ref is empty, registers with \<open>setInterval\<close> a callback that adds one to \<open>time\<close> and
  stores the id; \<open>stopTimer\<close> cancels the interval and empties the ref.
\<close>

record timer_state =
  time :: int
  timerRef :: bool

definition Timer_initial :: timer_state where
  "Timer_initial = \<lparr>time = 0, timerRef = False\<rparr>"

definition Timer_startTimer :: "timer_state \<Rightarrow> timer_state statement list" where
  "Timer_startTimer s =
     (if \<not> timerRef s then
        [Set_interval [Set_state (\<lambda>st. st\<lparr>time := js_add (time st) 1\<rparr>)],
         Assign_ref (\<lambda>st. st\<lparr>timerRef := True\<rparr>)]
      else [])"

definition Timer_stopTimer :: "timer_state statement list" where
  "Timer_stopTimer = [Clear_interval, Assign_ref (\<lambda>st. st\<lparr>timerRef := False\<rparr>)]"

section \<open>The redux-thunk example\<close>

text \<open>
  Actions and the reducer's state are plain objects: finite maps from property names to
  values. \<open>get obj k\<close> is the property read \<open>obj.k\<close>.
\<close>

type_synonym js_object = "string \<rightharpoonup> js_value"

definition get :: "js_object \<Rightarrow> string \<Rightarrow> js_value" where
  "get obj k = (case obj k of None \<Rightarrow> JUndefined | Some v \<Rightarrow> v)"

definition FETCH_DATA_REQUEST :: string where
  "FETCH_DATA_REQUEST = ''FETCH_DATA_REQUEST''"

definition FETCH_DATA_SUCCESS :: string where
  "FETCH_DATA_SUCCESS = ''FETCH_DATA_SUCCESS''"

definition FETCH_DATA_FAILURE :: string where
  "FETCH_DATA_FAILURE = ''FETCH_DATA_FAILURE''"

definition fetchDataRequest :: js_object where
  "fetchDataRequest = [''type'' \<mapsto> JStr FETCH_DATA_REQUEST]"

definition fetchDataSuccess :: "js_value \<Rightarrow> js_object" where
  "fetchDataSuccess data = [''type'' \<mapsto> JStr FETCH_DATA_SUCCESS, ''payload'' \<mapsto> data]"

definition fetchDataFailure :: "js_value \<Rightarrow> js_object" where
  "fetchDataFailure error = [''type'' \<mapsto> JStr FETCH_DATA_FAILURE, ''payload'' \<mapsto> error]"

definition initialState :: js_object where
  "initialState = [''loading'' \<mapsto> JBool False, ''data'' \<mapsto> JArr [], ''error'' \<mapsto> JStr []]"

text \<open>
  \<open>dataReducer\<close> of \<open>reducer.js\<close>. Its first parameter has the default \<open>initialState\<close>:
  \<open>None\<close> is the call with \<open>undefined\<close>. The spread \<open>...state\<close> copies every property of
  the state, and the properties written after it override.
\<close>

definition dataReducer :: "js_object option \<Rightarrow> js_object \<Rightarrow> js_object" where
  "dataReducer state_arg action =
     (let state = (case state_arg of None \<Rightarrow> initialState | Some st \<Rightarrow> st) in
      if get action ''type'' = JStr FETCH_DATA_REQUEST then
        state(''loading'' \<mapsto> JBool True)
      else if get action ''type'' = JStr FETCH_DATA_SUCCESS then
        state(''loading'' \<mapsto> JBool False, ''data'' \<mapsto> get action ''payload'', ''error'' \<mapsto> JStr [])
      else if get action ''type'' = JStr FETCH_DATA_FAILURE then
        state(''loading'' \<mapsto> JBool False, ''data'' \<mapsto> JArr [], ''error'' \<mapsto> get action ''payload'')
      else state)"

text \<open>
  An \<open>async\<close> function is a process: it dispatches actions, and at each \<open>await\<close> it stops
  and hands back a continuation that takes the outcome of the awaited promise. A rejected
  promise carries the \<open>message\<close> of its error; an \<open>await\<close> of a rejected promise throws, and
  the \<open>catch\<close> block is the \<open>Rejected\<close> branch of the continuation.
\<close>

datatype proc =
    Return
  | Dispatch js_object proc
  | Await_fetch string "response settled \<Rightarrow> proc"
  | Await_json response "js_value settled \<Rightarrow> proc"

definition fetchData :: proc where
  "fetchData =
     Dispatch fetchDataRequest
       (Await_fetch ''https://api.example.com/data''
          (\<lambda>fetched. case fetched of
               Rejected message \<Rightarrow> Dispatch (fetchDataFailure (JStr message)) Return
             | Fulfilled response \<Rightarrow>
                 Await_json response
                   (\<lambda>parsed. case parsed of
                        Rejected message \<Rightarrow> Dispatch (fetchDataFailure (JStr message)) Return
                      | Fulfilled data \<Rightarrow> Dispatch (fetchDataSuccess data) Return)))"

text \<open>
  \<open>run\<close> executes a process against the store up to its next \<open>await\<close> (or its end): every
  dispatch replaces the store's state by the reducer's result. What is left of the process
  comes back with the state.
\<close>

primrec run :: "proc \<Rightarrow> js_object \<Rightarrow> js_object \<times> proc" where
  "run Return st = (st, Return)"
| "run (Dispatch action rest) st = run rest (dataReducer (Some st) action)"
| "run (Await_fetch url k) st = (st, Await_fetch url k)"
| "run (Await_json resp k) st = (st, Await_json resp k)"

fun is_suspended :: "proc \<Rightarrow> bool" where
  "is_suspended (Await_fetch url k) = True"
| "is_suspended (Await_json resp k) = True"
| "is_suspended p = False"

text \<open>
  The mounted \<open>App\<close> of the example: the store's state for the \<open>data\<close> slice, and the
  suspended thunk if there is one. The store starts from the reducer's answer to Redux's
  initial action. \<open>useEffect\<close> dispatches \<open>fetchData()\<close> on mount; the thunk middleware runs
  it, and it goes on when the promise it awaits settles. The component has no listener.
\<close>

definition Redux_initial :: "js_object \<times> proc" where
  "Redux_initial = (dataReducer None [''type'' \<mapsto> JStr ''@@redux/INIT''], Return)"

fun Redux_App_handle :: "event \<Rightarrow> js_object \<times> proc \<Rightarrow> (js_object \<times> proc) option" where
  "Redux_App_handle Mount (st, Return) = Some (run fetchData st)"
| "Redux_App_handle (Fetch_settled outcome) (st, Await_fetch url k) = Some (run (k outcome) st)"
| "Redux_App_handle (Json_settled outcome) (st, Await_json resp k) = Some (run (k outcome) st)"
| "Redux_App_handle ev s = None"

definition Redux_App_step :: "js_object \<times> proc \<Rightarrow> event \<Rightarrow> js_object \<times> proc \<Rightarrow> bool" where
  "Redux_App_step s ev s' \<longleftrightarrow> Redux_App_handle ev s = Some s'"

fun Redux_App_run :: "event list \<Rightarrow> js_object \<times> proc \<Rightarrow> js_object \<times> proc" where
  "Redux_App_run [] s = s"
| "Redux_App_run (ev # evs) s =
     (case Redux_App_handle ev s of None \<Rightarrow> Redux_App_run evs s | Some s' \<Rightarrow> Redux_App_run evs s')"

text \<open>
  The two continuations of \<open>fetchData\<close>, named so that a suspended thunk can be written
  down: what it does once \<open>fetch\<close> has settled, and once \<open>response.json()\<close> has.
\<close>

definition after_json :: "js_value settled \<Rightarrow> proc" where
  "after_json =
     (\<lambda>parsed. case parsed of
          Rejected message \<Rightarrow> Dispatch (fetchDataFailure (JStr message)) Return
        | Fulfilled data \<Rightarrow> Dispatch (fetchDataSuccess data) Return)"

definition after_fetch :: "response settled \<Rightarrow> proc" where
  "after_fetch =
     (\<lambda>fetched. case fetched of
          Rejected message \<Rightarrow> Dispatch (fetchDataFailure (JStr message)) Return
        | Fulfilled response \<Rightarrow> Await_json response after_json)"

text \<open>The kinds of value the fields of the store's state are meant to hold.\<close>

fun is_boolean :: "js_value \<Rightarrow> bool" where
  "is_boolean (JBool b) = True"
| "is_boolean v = False"

fun is_string :: "js_value \<Rightarrow> bool" where
  "is_string (JStr s) = True"
| "is_string v = False"

fun is_array :: "js_value \<Rightarrow> bool" where
  "is_array (JArr vs) = True"
| "is_array v = False"

section \<open>The values the setters write\<close>

text \<open>
  The typed components above give each \<open>useState\<close> cell the type of its initial value.
  That this is right is a property of the code: a cell holds whatever the setter is called
  with. Here are the arguments of the setter calls as JavaScript evaluates them, on any
  value the cell might hold. \<open>!x\<close> is a boolean whatever \<open>x\<close> is. \<open>x + y\<close> adds two
  numbers and concatenates two strings; on other operands JavaScript converts first, which
  is not modelled (\<open>None\<close>) and, as shown below, never reached.
\<close>

fun truthy :: "js_value \<Rightarrow> bool" where
  "truthy JUndefined = False"
| "truthy JNull = False"
| "truthy (JBool b) = b"
| "truthy (JNum n) = (n \<noteq> 0)"
| "truthy (JStr s) = (s \<noteq> [])"
| "truthy (JArr vs) = True"
| "truthy (JObj ps) = True"

definition js_not :: "js_value \<Rightarrow> js_value" where
  "js_not v = JBool (\<not> truthy v)"

fun js_plus :: "js_value \<Rightarrow> js_value \<Rightarrow> js_value option" where
  "js_plus (JNum a) (JNum b) = Some (JNum (js_add a b))"
| "js_plus (JStr a) (JStr b) = Some (JStr (a @ b))"
| "js_plus v w = None"

fun is_number :: "js_value \<Rightarrow> bool" where
  "is_number (JNum n) = True"
| "is_number v = False"

text \<open>
  For each cell, which value a call of its setter writes when the cell holds \<open>current\<close>:
  \<open>setIsActive(!isActive)\<close> and the like in the CSS demos; \<open>setCount(count + 1)\<close> in
  \<open>Counter\<close>, the \<open>useMemo\<close> demo and \<open>Parent\<close>; no call at all for \<open>number\<close>;
  \<open>setQuery(e.target.value)\<close>, the value of an input being a string; the updater of
  \<open>setTheme\<close>; \<open>setIsAuthenticated(true)\<close> and \<open>setIsAuthenticated(false)\<close>.
\<close>

definition toggle_write :: "js_value \<Rightarrow> js_value \<Rightarrow> bool" where
  "toggle_write current written \<longleftrightarrow> written = js_not current"

definition count_write :: "js_value \<Rightarrow> js_value \<Rightarrow> bool" where
  "count_write current written \<longleftrightarrow> js_plus current (JNum 1) = Some written"

definition number_write :: "js_value \<Rightarrow> js_value \<Rightarrow> bool" where
  "number_write current written \<longleftrightarrow> False"

definition query_write :: "js_value \<Rightarrow> js_value \<Rightarrow> bool" where
  "query_write current written \<longleftrightarrow> is_string written"

definition theme_write :: "js_value \<Rightarrow> js_value \<Rightarrow> bool" where
  "theme_write prevTheme written \<longleftrightarrow>
     written = (if prevTheme = JStr ''light'' then JStr ''dark'' else JStr ''light'')"

definition isAuthenticated_write :: "js_value \<Rightarrow> js_value \<Rightarrow> bool" where
  "isAuthenticated_write current written \<longleftrightarrow> written = JBool True \<or> written = JBool False"

text \<open>The values a cell can come to hold: its initial value, and what is written from there.\<close>

inductive cell_reachable ::
  "js_value \<Rightarrow> (js_value \<Rightarrow> js_value \<Rightarrow> bool) \<Rightarrow> js_value \<Rightarrow> bool"
  for first :: js_value and setter :: "js_value \<Rightarrow> js_value \<Rightarrow> bool" where
  cell_first: "cell_reachable first setter first"
| cell_next: "cell_reachable first setter v \<Longrightarrow> setter v w \<Longrightarrow> cell_reachable first setter w"

text \<open>
  \<open>ControlledForm\<close> of the form notes keeps an object in its cell:
  \<open>useState({ name: "", email: "" })\<close>. Its \<open>handleChange\<close> writes
  \<open>{ ...formData, [e.target.name]: e.target.value }\<close>: the properties of \<open>formData\<close>
  with the one named by the input set to the input's value.
\<close>

fun set_property :: "string \<Rightarrow> js_value \<Rightarrow> (string \<times> js_value) list \<Rightarrow> (string \<times> js_value) list" where
  "set_property k v [] = [(k, v)]"
| "set_property k v ((k', v') # ps) =
     (if k = k' then (k, v) # ps else (k', v') # set_property k v ps)"

definition ControlledForm_initial :: js_value where
  "ControlledForm_initial = JObj [(''name'', JStr []), (''email'', JStr [])]"

definition ControlledForm_handleChange ::
  "string \<Rightarrow> string \<Rightarrow> (string \<times> js_value) list \<Rightarrow> js_value" where
  "ControlledForm_handleChange name value formData = JObj (set_property name (JStr value) formData)"

section \<open>What each component's events do\<close>

text \<open>
  For every component, the successor states of an event, computed from the listeners of the
  rendered tree. The claims below are read off these equations.
\<close>

lemma spacing_small: "a < 2 ^ 53 \<Longrightarrow> spacing a = 1"
  by (subst spacing.simps) simp

lemma spacing_next: "2 ^ 53 \<le> a \<Longrightarrow> a < 2 ^ 54 \<Longrightarrow> spacing a = 2"
  by (subst spacing.simps) (simp add: spacing_small)

lemma js_round_exact: "\<bar>x\<bar> \<le> 2 ^ 53 \<Longrightarrow> js_round x = x"
proof (cases "\<bar>x\<bar> < 2 ^ 53")
  case True
  then have "spacing (nat \<bar>x\<bar>) = 1"
    by (intro spacing_small) simp
  then have "js_round x = sgn x * \<bar>x\<bar>"
    by (simp add: js_round_def Let_def)
  then show ?thesis
    by (simp add: mult_sgn_abs)
next
  case False
  assume "\<bar>x\<bar> \<le> 2 ^ 53"
  with False have a: "nat \<bar>x\<bar> = 2 ^ 53"
    by simp
  have "spacing (2 ^ 53) = 2"
    by (rule spacing_next) simp_all
  with a have "js_round x = sgn x * 2 ^ 53"
    by (simp add: js_round_def Let_def)
  also have "\<dots> = x"
    using a by (cases "x < 0") auto
  finally show ?thesis .
qed

lemma js_add_exact: "\<bar>a + b\<bar> \<le> 2 ^ 53 \<Longrightarrow> js_add a b = a + b"
  by (simp add: js_add_def js_round_exact)

lemma js_add_stuck: "js_add (2 ^ 53) 1 = 2 ^ 53"
proof -
  have "spacing (nat \<bar>2 ^ 53 + 1\<bar>) = 2"
    by (rule spacing_next) simp_all
  then show ?thesis
    by (simp add: js_add_def js_round_def Let_def)
qed

lemma toggleTheme_eq:
  "toggleTheme s = s\<lparr>theme := (if theme s = ''light'' then ''dark'' else ''light'')\<rparr>"
  by (simp add: toggleTheme_def setTheme_def)

lemma login_eq: "login s = s\<lparr>isAuthenticated := True\<rparr>"
  by (simp add: login_def setIsAuthenticated_def)

lemma logout_eq: "logout s = s\<lparr>isAuthenticated := False\<rparr>"
  by (simp add: logout_def setIsAuthenticated_def)

lemma successors_ThemedButton:
  "successors ThemedButton ev s = (if ev = Click ''button'' then [toggleTheme s] else [])"
  by (cases ev) (auto simp: successors_def ThemedButton_def useTheme_def)

lemma successors_AuthButton:
  "successors AuthButton ev s =
     (if ev = Click ''button'' then [s\<lparr>isAuthenticated := \<not> isAuthenticated s\<rparr>] else [])"
  by (cases ev) (auto simp: successors_def AuthButton_def useAuth_def login_eq logout_eq)

lemma successors_Navbar: "successors Navbar ev s = []"
  by (cases ev) (auto simp: successors_def Navbar_def useTheme_def useAuth_def)

lemma successors_Context_App:
  "successors Context_App ev s =
     successors Navbar ev s @ successors ThemedButton ev s @ successors AuthButton ev s"
  by (simp add: successors_def Context_App_def)

lemma successors_Counter:
  "successors Counter ev c = (if ev = Click ''button'' then [js_add c 1] else [])"
  by (cases ev) (auto simp: successors_def Counter_def)

lemma successors_WithUseMemo:
  "successors WithUseMemo ev s =
     (if ev = Click ''button'' then [s\<lparr>count := js_add (count s) 1\<rparr>] else [])"
  by (cases ev) (auto simp: successors_def WithUseMemo_def)

lemma successors_Parent:
  "successors Parent ev c = (if ev = Click ''button'' then [js_add c 1, c] else [])"
  by (cases ev) (auto simp: successors_def Parent_def Child_def)

lemma successors_Search:
  "successors Search ev q =
     (case ev of Change tg v \<Rightarrow> if tg = ''input'' then [v] else [] | _ \<Rightarrow> [])"
  by (cases ev) (auto simp: successors_def Search_def)

lemma successors_toggle:
  "successors Using_Inline_Style ev b = (if ev = Click ''button'' then [\<not> b] else [])"
  "successors Using_CSS_Classes ev b = (if ev = Click ''button'' then [\<not> b] else [])"
  "successors (Using_CSS_Modules styles) ev b = (if ev = Click ''button'' then [\<not> b] else [])"
  "successors Using_Styled_Components ev b = (if ev = Click ''button'' then [\<not> b] else [])"
  "successors Using_Emotion ev b = (if ev = Click ''button'' then [\<not> b] else [])"
  by (cases ev; auto simp: successors_def Using_Inline_Style_def Using_CSS_Classes_def
        Using_CSS_Modules_def Using_Styled_Components_def Using_Emotion_def Button_def)+

lemma listeners_embed:
  "listeners (embed upd el) = map (\<lambda>(tg, l). (tg, embed_listener upd l)) (listeners el)"
  by (induction el) (auto simp: map_concat comp_def intro!: arg_cong[where f = concat])

lemma successors_Inline:
  "successors Inline_Style_on_page ev p =
     (if ev = Click ''button'' then [p\<lparr>inline_isActive := \<not> inline_isActive p\<rparr>] else [])"
  by (cases ev) (auto simp: successors_def Inline_Style_on_page_def Using_Inline_Style_def)

lemma successors_Classes:
  "successors CSS_Classes_on_page ev p =
     (if ev = Click ''button'' then [p\<lparr>isDark := \<not> isDark p\<rparr>] else [])"
  by (cases ev) (auto simp: successors_def CSS_Classes_on_page_def Using_CSS_Classes_def)

lemma successors_Modules:
  "successors (CSS_Modules_on_page styles) ev p =
     (if ev = Click ''button'' then [p\<lparr>isSuccess := \<not> isSuccess p\<rparr>] else [])"
  by (cases ev) (auto simp: successors_def CSS_Modules_on_page_def Using_CSS_Modules_def)

lemma successors_Styled:
  "successors Styled_Components_on_page ev p =
     (if ev = Click ''button'' then [p\<lparr>primary := \<not> primary p\<rparr>] else [])"
  by (cases ev)
    (auto simp: successors_def Styled_Components_on_page_def Using_Styled_Components_def Button_def)

lemma successors_Emotion:
  "successors Emotion_on_page ev p =
     (if ev = Click ''button'' then [p\<lparr>emotion_isActive := \<not> emotion_isActive p\<rparr>] else [])"
  by (cases ev) (auto simp: successors_def Emotion_on_page_def Using_Emotion_def)

lemma successors_CSS_App:
  "successors (CSS_App styles) ev p =
     successors Inline_Style_on_page ev p @ successors CSS_Classes_on_page ev p
     @ successors (CSS_Modules_on_page styles) ev p
     @ successors Styled_Components_on_page ev p @ successors Emotion_on_page ev p"
  by (simp add: successors_def CSS_App_def)

lemmas page_defs =
  Inline_Style_on_page_def CSS_Classes_on_page_def CSS_Modules_on_page_def
  Styled_Components_on_page_def Emotion_on_page_def

lemmas successors_page =
  successors_Inline successors_Classes successors_Modules successors_Styled successors_Emotion

subsection \<open>The reducer and the thunk\<close>

lemmas action_defs =
  fetchDataRequest_def fetchDataSuccess_def fetchDataFailure_def
  FETCH_DATA_REQUEST_def FETCH_DATA_SUCCESS_def FETCH_DATA_FAILURE_def

lemma dataReducer_request:
  "dataReducer (Some st) fetchDataRequest = st(''loading'' \<mapsto> JBool True)"
  by (simp add: dataReducer_def get_def action_defs)

lemma dataReducer_success:
  "dataReducer (Some st) (fetchDataSuccess d) =
     st(''loading'' \<mapsto> JBool False, ''data'' \<mapsto> d, ''error'' \<mapsto> JStr [])"
  by (simp add: dataReducer_def get_def action_defs)

lemma dataReducer_failure:
  "dataReducer (Some st) (fetchDataFailure e) =
     st(''loading'' \<mapsto> JBool False, ''data'' \<mapsto> JArr [], ''error'' \<mapsto> e)"
  by (simp add: dataReducer_def get_def action_defs)

lemma Redux_initial_eq: "Redux_initial = (initialState, Return)"
  by (simp add: Redux_initial_def dataReducer_def get_def action_defs)

lemma fetchData_eq:
  "fetchData = Dispatch fetchDataRequest (Await_fetch ''https://api.example.com/data'' after_fetch)"
  unfolding fetchData_def after_fetch_def after_json_def by (rule refl)

lemma run_fetchData:
  "run fetchData st =
     (st(''loading'' \<mapsto> JBool True), Await_fetch ''https://api.example.com/data'' after_fetch)"
  by (simp add: fetchData_eq dataReducer_request)

lemma run_after_fetch_Rejected:
  "run (after_fetch (Rejected m)) st =
     (st(''loading'' \<mapsto> JBool False, ''data'' \<mapsto> JArr [], ''error'' \<mapsto> JStr m), Return)"
  by (simp add: after_fetch_def dataReducer_failure)

lemma run_after_fetch_Fulfilled:
  "run (after_fetch (Fulfilled r)) st = (st, Await_json r after_json)"
  by (simp add: after_fetch_def)

lemma run_after_json_Rejected:
  "run (after_json (Rejected m)) st =
     (st(''loading'' \<mapsto> JBool False, ''data'' \<mapsto> JArr [], ''error'' \<mapsto> JStr m), Return)"
  by (simp add: after_json_def dataReducer_failure)

lemma run_after_json_Fulfilled:
  "run (after_json (Fulfilled d)) st =
     (st(''loading'' \<mapsto> JBool False, ''data'' \<mapsto> d, ''error'' \<mapsto> JStr []), Return)"
  by (simp add: after_json_def dataReducer_success)

lemmas run_thunk =
  run_fetchData run_after_fetch_Rejected run_after_fetch_Fulfilled
  run_after_json_Rejected run_after_json_Fulfilled

lemma fetch_rejected_run:
  "Redux_App_run [Mount, Fetch_settled (Rejected m)] (st, Return) =
     (st(''loading'' \<mapsto> JBool False, ''data'' \<mapsto> JArr [], ''error'' \<mapsto> JStr m), Return)"
  by (simp add: run_thunk)

lemma json_rejected_run:
  "Redux_App_run [Mount, Fetch_settled (Fulfilled r), Json_settled (Rejected m)] (st, Return) =
     (st(''loading'' \<mapsto> JBool False, ''data'' \<mapsto> JArr [], ''error'' \<mapsto> JStr m), Return)"
  by (simp add: run_thunk)

lemma json_fulfilled_run:
  "Redux_App_run [Mount, Fetch_settled (Fulfilled r), Json_settled (Fulfilled d)] (st, Return) =
     (st(''loading'' \<mapsto> JBool False, ''data'' \<mapsto> d, ''error'' \<mapsto> JStr []), Return)"
  by (simp add: run_thunk)

lemma Redux_App_step_event:
  "Redux_App_step s ev s' \<Longrightarrow>
     ev = Mount \<or> (\<exists>outcome. ev = Fetch_settled outcome) \<or> (\<exists>outcome. ev = Json_settled outcome)"
  unfolding Redux_App_step_def by (cases "(ev, s)" rule: Redux_App_handle.cases) auto

lemma ctx_reachable_theme: "ctx_reachable s \<Longrightarrow> theme s \<in> {''light'', ''dark''}"
proof (induction rule: ctx_reachable.induct)
  case ctx_init
  show ?case by (simp add: ctx_initial_def)
next
  case (ctx_next s ev s')
  then show ?case
    by (auto simp: ui_step_def successors_Context_App successors_Navbar successors_ThemedButton
        successors_AuthButton toggleTheme_eq split: if_splits)
qed

subsection \<open>Handler bodies and written values\<close>

lemma effect_Set_state: "effect [Set_state f] = f"
  by (rule ext) simp

lemma effect_Set_state_log: "effect [Set_state f, Console_log] = f"
  by (rule ext) simp

lemma effect_log: "effect [Console_log] = (\<lambda>st. st)"
  by (rule ext) simp

lemmas body_defs =
  Counter_onClick_def Parent_onClick_def Parent_handleClick_def Search_handleChange_def
  WithUseMemo_onClick_def Using_Inline_Style_onClick_def Using_CSS_Classes_onClick_def
  Using_CSS_Modules_onClick_def Using_Styled_Components_onClick_def Using_Emotion_onClick_def
  toggleTheme_body_def login_body_def logout_body_def

lemma toggle_cell_boolean:
  "cell_reachable first toggle_write v \<Longrightarrow> is_boolean first \<Longrightarrow> is_boolean v"
  by (induction rule: cell_reachable.induct) (simp_all add: toggle_write_def js_not_def)

lemma count_cell_number:
  "cell_reachable first count_write v \<Longrightarrow> is_number first \<Longrightarrow> is_number v"
proof (induction rule: cell_reachable.induct)
  case cell_first
  then show ?case by simp
next
  case (cell_next v w)
  then have "is_number v" by simp
  then obtain n where "v = JNum n" by (cases v) simp_all
  with cell_next.hyps(2) show ?case by (auto simp: count_write_def)
qed

lemma number_cell_constant: "cell_reachable first number_write v \<Longrightarrow> v = first"
  by (induction rule: cell_reachable.induct) (simp_all add: number_write_def)

lemma query_cell_string:
  "cell_reachable first query_write v \<Longrightarrow> is_string first \<Longrightarrow> is_string v"
  by (induction rule: cell_reachable.induct) (simp_all add: query_write_def)

lemma theme_cell_light_dark:
  "cell_reachable (JStr ''light'') theme_write v \<Longrightarrow> v = JStr ''light'' \<or> v = JStr ''dark''"
  by (induction rule: cell_reachable.induct) (auto simp: theme_write_def)

lemma isAuthenticated_cell_boolean:
  "cell_reachable first isAuthenticated_write v \<Longrightarrow> is_boolean first \<Longrightarrow> is_boolean v"
  by (induction rule: cell_reachable.induct) (auto simp: isAuthenticated_write_def)

lemma set_property_field:
  "field (JObj (set_property k v ps)) k' = (if k' = k then v else field (JObj ps) k')"
  by (induction ps) auto

section \<open>The claims\<close>

subsection \<open>The AuthContext demo\<close>

text \<open>
  Claim C7. In the AuthContext demo \<open>isAuthenticated\<close> is initially false. Whatever the state
  before, \<open>login\<close> leaves it true and \<open>logout\<close> leaves it false, so each of them is
  idempotent, and neither touches the theme. The only event \<open>AuthButton\<close> answers is a click
  on its button, and that click negates \<open>isAuthenticated\<close>. The button's label is
  \<open>Logout\<close> exactly when \<open>isAuthenticated\<close> is true (and \<open>Login\<close> otherwise).
\<close>

theorem AuthContext_login_logout:
  "isAuthenticated ctx_initial = False
   \<and> isAuthenticated (login s) = True \<and> isAuthenticated (logout s) = False
   \<and> login (login s) = login s \<and> logout (logout s) = logout s
   \<and> theme (login s) = theme s \<and> theme (logout s) = theme s
   \<and> (ui_step AuthButton s ev s' \<longleftrightarrow>
        ev = Click ''button'' \<and> s' = s\<lparr>isAuthenticated := \<not> isAuthenticated s\<rparr>)
   \<and> (children (AuthButton s) = [Expr (JStr ''Logout'')] \<longleftrightarrow> isAuthenticated s)
   \<and> (children (AuthButton s) = [Expr (JStr ''Login'')] \<longleftrightarrow> \<not> isAuthenticated s)"
  by (auto simp: ui_step_def successors_AuthButton ctx_initial_def login_eq logout_eq
      AuthButton_def useAuth_def)

text \<open>
  Claim C7 at the initial state and at the state after a login: the first click logs in, the
  label then reads \<open>Logout\<close>.
\<close>

theorem AuthContext_login_logout_witness:
  "ui_step AuthButton ctx_initial (Click ''button'') (ctx_initial\<lparr>isAuthenticated := True\<rparr>)
   \<and> isAuthenticated (login ctx_initial)
   \<and> \<not> isAuthenticated (logout (login ctx_initial))
   \<and> children (AuthButton ctx_initial) = [Expr (JStr ''Login'')]
   \<and> children (AuthButton (login ctx_initial)) = [Expr (JStr ''Logout'')]"
proof -
  note at_start = AuthContext_login_logout
    [where s = ctx_initial and ev = "Click ''button''"
       and s' = "ctx_initial\<lparr>isAuthenticated := True\<rparr>"]
  note logged_in = AuthContext_login_logout
    [where s = "login ctx_initial" and ev = "Click ''button''" and s' = ctx_initial]
  have "\<not> isAuthenticated ctx_initial"
    using at_start by simp
  then have "ui_step AuthButton ctx_initial (Click ''button'') (ctx_initial\<lparr>isAuthenticated := True\<rparr>)"
    and "children (AuthButton ctx_initial) = [Expr (JStr ''Login'')]"
    using at_start by simp_all
  moreover have "isAuthenticated (login ctx_initial)"
    using at_start by simp
  moreover from this have "children (AuthButton (login ctx_initial)) = [Expr (JStr ''Logout'')]"
    using logged_in by simp
  moreover have "\<not> isAuthenticated (logout (login ctx_initial))"
    using logged_in by simp
  ultimately show ?thesis by simp
qed

subsection \<open>The theme\<close>

text \<open>
  Claim C8. The theme of \<open>ThemeProvider\<close> is always \<open>light\<close> or \<open>dark\<close>: it is \<open>light\<close>
  initially, \<open>toggleTheme\<close> keeps it in that two-element set, and so does every other event of
  the mounted demo; hence in every reachable state two consecutive calls of \<open>toggleTheme\<close>
  give the state back.
\<close>

theorem theme_invariant:
  "theme ctx_initial = ''light''
   \<and> (theme s \<in> {''light'', ''dark''} \<longrightarrow> theme (toggleTheme s) \<in> {''light'', ''dark''})
   \<and> (ctx_reachable s \<longrightarrow>
        theme s \<in> {''light'', ''dark''} \<and> toggleTheme (toggleTheme s) = s)"
  using ctx_reachable_theme[of s]
  by (auto simp: ctx_initial_def toggleTheme_eq)

text \<open>
  Claim C8 at the state one click on \<open>ThemedButton\<close> after the start: it is reachable, its
  theme is \<open>dark\<close>, and toggling twice from it comes back to it.
\<close>

theorem theme_invariant_witness:
  "ctx_reachable (toggleTheme ctx_initial)
   \<and> theme (toggleTheme ctx_initial) = ''dark''
   \<and> theme (toggleTheme (toggleTheme ctx_initial)) \<in> {''light'', ''dark''}
   \<and> toggleTheme (toggleTheme (toggleTheme ctx_initial)) = toggleTheme ctx_initial"
proof -
  have "ui_step Context_App ctx_initial (Click ''button'') (toggleTheme ctx_initial)"
    by (simp add: ui_step_def successors_Context_App successors_ThemedButton)
  then have reach: "ctx_reachable (toggleTheme ctx_initial)"
    by (rule ctx_next[OF ctx_init])
  have dark: "theme (toggleTheme ctx_initial) = ''dark''"
    by (simp add: toggleTheme_eq ctx_initial_def)
  from reach dark theme_invariant[of "toggleTheme ctx_initial"] show ?thesis
    by simp
qed

subsection \<open>The reducer\<close>

text \<open>
  Claim C9. \<open>dataReducer\<close> answers every action. An action whose type is none of
  \<open>FETCH_DATA_REQUEST\<close>, \<open>FETCH_DATA_SUCCESS\<close>, \<open>FETCH_DATA_FAILURE\<close> gives the state back
  unchanged. \<open>FETCH_DATA_REQUEST\<close> changes only \<open>loading\<close>, to true. \<open>FETCH_DATA_SUCCESS\<close>
  sets \<open>loading\<close> to false, \<open>data\<close> to the payload and \<open>error\<close> to the empty string.
  \<open>FETCH_DATA_FAILURE\<close> sets \<open>loading\<close> to false, \<open>data\<close> to the empty list and \<open>error\<close>
  to the payload. No action changes any other field. Called without a state, the reducer
  works from \<open>initialState\<close>.
\<close>

theorem dataReducer_cases:
  "(get action ''type'' \<notin> {JStr FETCH_DATA_REQUEST, JStr FETCH_DATA_SUCCESS, JStr FETCH_DATA_FAILURE}
      \<longrightarrow> dataReducer (Some state) action = state)
   \<and> (get action ''type'' = JStr FETCH_DATA_REQUEST
      \<longrightarrow> dataReducer (Some state) action = state(''loading'' \<mapsto> JBool True))
   \<and> (get action ''type'' = JStr FETCH_DATA_SUCCESS
      \<longrightarrow> dataReducer (Some state) action
          = state(''loading'' \<mapsto> JBool False, ''data'' \<mapsto> get action ''payload'',
                  ''error'' \<mapsto> JStr []))
   \<and> (get action ''type'' = JStr FETCH_DATA_FAILURE
      \<longrightarrow> dataReducer (Some state) action
          = state(''loading'' \<mapsto> JBool False, ''data'' \<mapsto> JArr [],
                  ''error'' \<mapsto> get action ''payload''))
   \<and> (k \<notin> {''loading'', ''data'', ''error''} \<longrightarrow> dataReducer (Some state) action k = state k)
   \<and> dataReducer None action = dataReducer (Some initialState) action"
  by (auto simp: dataReducer_def Let_def FETCH_DATA_REQUEST_def FETCH_DATA_SUCCESS_def
      FETCH_DATA_FAILURE_def)

text \<open>
  Claim C9 on a state with a fourth field \<open>page\<close>: an action of another type, a request, a
  success carrying a one-element list and a failure carrying a message; \<open>page\<close> survives
  the failure.
\<close>

theorem dataReducer_cases_witness:
  "dataReducer (Some (initialState(''page'' \<mapsto> JNum 2))) [''type'' \<mapsto> JStr ''RESET'']
     = initialState(''page'' \<mapsto> JNum 2)
   \<and> dataReducer (Some (initialState(''page'' \<mapsto> JNum 2))) fetchDataRequest
     = initialState(''page'' \<mapsto> JNum 2, ''loading'' \<mapsto> JBool True)
   \<and> dataReducer (Some (initialState(''page'' \<mapsto> JNum 2))) (fetchDataSuccess (JArr [JNum 7]))
     = initialState(''page'' \<mapsto> JNum 2, ''loading'' \<mapsto> JBool False,
                    ''data'' \<mapsto> JArr [JNum 7], ''error'' \<mapsto> JStr [])
   \<and> dataReducer (Some (initialState(''page'' \<mapsto> JNum 2))) (fetchDataFailure (JStr ''Failed to fetch''))
     = initialState(''page'' \<mapsto> JNum 2, ''loading'' \<mapsto> JBool False,
                    ''data'' \<mapsto> JArr [], ''error'' \<mapsto> JStr ''Failed to fetch'')
   \<and> dataReducer (Some (initialState(''page'' \<mapsto> JNum 2))) (fetchDataFailure (JStr ''Failed to fetch''))
        ''page'' = Some (JNum 2)"
proof -
  let ?st = "initialState(''page'' \<mapsto> JNum 2)"
  have other: "get [''type'' \<mapsto> JStr ''RESET''] ''type''
      \<notin> {JStr FETCH_DATA_REQUEST, JStr FETCH_DATA_SUCCESS, JStr FETCH_DATA_FAILURE}"
    by (simp add: get_def action_defs)
  have request: "get fetchDataRequest ''type'' = JStr FETCH_DATA_REQUEST"
    by (simp add: get_def action_defs)
  have success: "get (fetchDataSuccess (JArr [JNum 7])) ''type'' = JStr FETCH_DATA_SUCCESS"
    "get (fetchDataSuccess (JArr [JNum 7])) ''payload'' = JArr [JNum 7]"
    by (simp_all add: get_def action_defs)
  have failure: "get (fetchDataFailure (JStr ''Failed to fetch'')) ''type'' = JStr FETCH_DATA_FAILURE"
    "get (fetchDataFailure (JStr ''Failed to fetch'')) ''payload'' = JStr ''Failed to fetch''"
    by (simp_all add: get_def action_defs)
  have page: "''page'' \<notin> {''loading'', ''data'', ''error''}"
    by simp
  from other dataReducer_cases[where state = ?st and action = "[''type'' \<mapsto> JStr ''RESET'']"]
  have 1: "dataReducer (Some ?st) [''type'' \<mapsto> JStr ''RESET''] = ?st"
    by blast
  from request dataReducer_cases[where state = ?st and action = fetchDataRequest]
  have 2: "dataReducer (Some ?st) fetchDataRequest = ?st(''loading'' \<mapsto> JBool True)"
    by blast
  from success dataReducer_cases[where state = ?st and action = "fetchDataSuccess (JArr [JNum 7])"]
  have 3: "dataReducer (Some ?st) (fetchDataSuccess (JArr [JNum 7]))
      = ?st(''loading'' \<mapsto> JBool False, ''data'' \<mapsto> JArr [JNum 7], ''error'' \<mapsto> JStr [])"
    by simp
  from failure
    dataReducer_cases[where state = ?st and action = "fetchDataFailure (JStr ''Failed to fetch'')"]
  have 4: "dataReducer (Some ?st) (fetchDataFailure (JStr ''Failed to fetch''))
      = ?st(''loading'' \<mapsto> JBool False, ''data'' \<mapsto> JArr [], ''error'' \<mapsto> JStr ''Failed to fetch'')"
    by simp
  from page
    dataReducer_cases[where state = ?st and action = "fetchDataFailure (JStr ''Failed to fetch'')"
      and k = "''page''"]
  have 5: "dataReducer (Some ?st) (fetchDataFailure (JStr ''Failed to fetch'')) ''page'' = Some (JNum 2)"
    by simp
  from 1 2 3 4 5 show ?thesis by simp
qed

subsection \<open>Which component sees whose state\<close>

text \<open>
  Claim C1 says that a click on one component changes no state that a component of another
  file observes. In the context-api demo it does: at the initial state, the click on
  \<open>ThemedButton\<close> sets the theme that \<open>ThemeProvider\<close> declared to \<open>dark\<close>, and \<open>Navbar\<close>
  renders something else from the new state than from the old one.
\<close>

theorem themed_button_click_changes_navbar:
  "ui_step ThemedButton ctx_initial (Click ''button'') (ctx_initial\<lparr>theme := ''dark''\<rparr>)
   \<and> Navbar (ctx_initial\<lparr>theme := ''dark''\<rparr>) \<noteq> Navbar ctx_initial"
  by (simp add: ui_step_def successors_ThemedButton toggleTheme_eq ctx_initial_def Navbar_def
      useTheme_def useAuth_def)

text \<open>
  Claim C1, amended. On the page of the CSS-toggling demos every component keeps its state to
  itself: an event of one of the five components leaves what each of the other four renders
  unchanged. The context-api demo shares its two cells through context. A click on
  \<open>ThemedButton\<close> toggles the theme, which changes what \<open>Navbar\<close> and \<open>ThemedButton\<close>
  render, and leaves \<open>isAuthenticated\<close> and \<open>AuthButton\<close> as they were; a click on
  \<open>AuthButton\<close> negates \<open>isAuthenticated\<close>, which changes what \<open>Navbar\<close> and
  \<open>AuthButton\<close> render, and leaves the theme and \<open>ThemedButton\<close> as they were.
\<close>

theorem state_sharing_frame:
  "(ui_step Inline_Style_on_page p ev p' \<longrightarrow>
      CSS_Classes_on_page p' = CSS_Classes_on_page p
      \<and> CSS_Modules_on_page styles p' = CSS_Modules_on_page styles p
      \<and> Styled_Components_on_page p' = Styled_Components_on_page p
      \<and> Emotion_on_page p' = Emotion_on_page p)
   \<and> (ui_step CSS_Classes_on_page p ev p' \<longrightarrow>
      Inline_Style_on_page p' = Inline_Style_on_page p
      \<and> CSS_Modules_on_page styles p' = CSS_Modules_on_page styles p
      \<and> Styled_Components_on_page p' = Styled_Components_on_page p
      \<and> Emotion_on_page p' = Emotion_on_page p)
   \<and> (ui_step (CSS_Modules_on_page styles) p ev p' \<longrightarrow>
      Inline_Style_on_page p' = Inline_Style_on_page p
      \<and> CSS_Classes_on_page p' = CSS_Classes_on_page p
      \<and> Styled_Components_on_page p' = Styled_Components_on_page p
      \<and> Emotion_on_page p' = Emotion_on_page p)
   \<and> (ui_step Styled_Components_on_page p ev p' \<longrightarrow>
      Inline_Style_on_page p' = Inline_Style_on_page p
      \<and> CSS_Classes_on_page p' = CSS_Classes_on_page p
      \<and> CSS_Modules_on_page styles p' = CSS_Modules_on_page styles p
      \<and> Emotion_on_page p' = Emotion_on_page p)
   \<and> (ui_step Emotion_on_page p ev p' \<longrightarrow>
      Inline_Style_on_page p' = Inline_Style_on_page p
      \<and> CSS_Classes_on_page p' = CSS_Classes_on_page p
      \<and> CSS_Modules_on_page styles p' = CSS_Modules_on_page styles p
      \<and> Styled_Components_on_page p' = Styled_Components_on_page p)
   \<and> (ui_step ThemedButton s ev s' \<longrightarrow>
      s' = toggleTheme s \<and> Navbar s' \<noteq> Navbar s \<and> ThemedButton s' \<noteq> ThemedButton s
      \<and> isAuthenticated s' = isAuthenticated s \<and> AuthButton s' = AuthButton s)
   \<and> (ui_step AuthButton s ev s' \<longrightarrow>
      isAuthenticated s' = (\<not> isAuthenticated s)
      \<and> Navbar s' \<noteq> Navbar s \<and> AuthButton s' \<noteq> AuthButton s
      \<and> theme s' = theme s \<and> ThemedButton s' = ThemedButton s)"
  by (auto simp: ui_step_def successors_page successors_ThemedButton successors_AuthButton
      page_defs toggleTheme_eq Navbar_def ThemedButton_def AuthButton_def useTheme_def useAuth_def
      split: if_splits)

text \<open>
  Claim C1, amended, at the initial states: one click on each of the five components of the
  CSS page and on each of the two buttons of the context-api demo.
\<close>

theorem state_sharing_frame_witness:
  "ui_step Inline_Style_on_page CSS_initial (Click ''button'') (CSS_initial\<lparr>inline_isActive := True\<rparr>)
   \<and> CSS_Classes_on_page (CSS_initial\<lparr>inline_isActive := True\<rparr>) = CSS_Classes_on_page CSS_initial
   \<and> ui_step CSS_Classes_on_page CSS_initial (Click ''button'') (CSS_initial\<lparr>isDark := True\<rparr>)
   \<and> Inline_Style_on_page (CSS_initial\<lparr>isDark := True\<rparr>) = Inline_Style_on_page CSS_initial
   \<and> ui_step (CSS_Modules_on_page (JObj [])) CSS_initial (Click ''button'')
        (CSS_initial\<lparr>isSuccess := False\<rparr>)
   \<and> Emotion_on_page (CSS_initial\<lparr>isSuccess := False\<rparr>) = Emotion_on_page CSS_initial
   \<and> ui_step Styled_Components_on_page CSS_initial (Click ''button'') (CSS_initial\<lparr>primary := True\<rparr>)
   \<and> CSS_Modules_on_page (JObj []) (CSS_initial\<lparr>primary := True\<rparr>)
        = CSS_Modules_on_page (JObj []) CSS_initial
   \<and> ui_step Emotion_on_page CSS_initial (Click ''button'') (CSS_initial\<lparr>emotion_isActive := True\<rparr>)
   \<and> Styled_Components_on_page (CSS_initial\<lparr>emotion_isActive := True\<rparr>)
        = Styled_Components_on_page CSS_initial
   \<and> ui_step ThemedButton ctx_initial (Click ''button'') (toggleTheme ctx_initial)
   \<and> AuthButton (toggleTheme ctx_initial) = AuthButton ctx_initial
   \<and> Navbar (toggleTheme ctx_initial) \<noteq> Navbar ctx_initial
   \<and> ui_step AuthButton ctx_initial (Click ''button'') (login ctx_initial)
   \<and> ThemedButton (login ctx_initial) = ThemedButton ctx_initial
   \<and> Navbar (login ctx_initial) \<noteq> Navbar ctx_initial"
proof -
  let ?ev = "Click ''button''"
  have h1: "ui_step Inline_Style_on_page CSS_initial ?ev (CSS_initial\<lparr>inline_isActive := True\<rparr>)"
    by (simp add: ui_step_def successors_Inline CSS_initial_def)
  have h2: "ui_step CSS_Classes_on_page CSS_initial ?ev (CSS_initial\<lparr>isDark := True\<rparr>)"
    by (simp add: ui_step_def successors_Classes CSS_initial_def)
  have h3: "ui_step (CSS_Modules_on_page (JObj [])) CSS_initial ?ev (CSS_initial\<lparr>isSuccess := False\<rparr>)"
    by (simp add: ui_step_def successors_Modules CSS_initial_def)
  have h4: "ui_step Styled_Components_on_page CSS_initial ?ev (CSS_initial\<lparr>primary := True\<rparr>)"
    by (simp add: ui_step_def successors_Styled CSS_initial_def)
  have h5: "ui_step Emotion_on_page CSS_initial ?ev (CSS_initial\<lparr>emotion_isActive := True\<rparr>)"
    by (simp add: ui_step_def successors_Emotion CSS_initial_def)
  have h6: "ui_step ThemedButton ctx_initial ?ev (toggleTheme ctx_initial)"
    by (simp add: ui_step_def successors_ThemedButton)
  have h7: "ui_step AuthButton ctx_initial ?ev (login ctx_initial)"
    by (simp add: ui_step_def successors_AuthButton ctx_initial_def login_eq)
  note frame = state_sharing_frame
    [where styles = "JObj []" and ev = ?ev and p = CSS_initial and s = ctx_initial]
  from h1 frame[where p' = "CSS_initial\<lparr>inline_isActive := True\<rparr>"]
  have c1: "CSS_Classes_on_page (CSS_initial\<lparr>inline_isActive := True\<rparr>)
      = CSS_Classes_on_page CSS_initial"
    by blast
  from h2 frame[where p' = "CSS_initial\<lparr>isDark := True\<rparr>"]
  have c2: "Inline_Style_on_page (CSS_initial\<lparr>isDark := True\<rparr>) = Inline_Style_on_page CSS_initial"
    by blast
  from h3 frame[where p' = "CSS_initial\<lparr>isSuccess := False\<rparr>"]
  have c3: "Emotion_on_page (CSS_initial\<lparr>isSuccess := False\<rparr>) = Emotion_on_page CSS_initial"
    by blast
  from h4 frame[where p' = "CSS_initial\<lparr>primary := True\<rparr>"]
  have c4: "CSS_Modules_on_page (JObj []) (CSS_initial\<lparr>primary := True\<rparr>)
      = CSS_Modules_on_page (JObj []) CSS_initial"
    by blast
  from h5 frame[where p' = "CSS_initial\<lparr>emotion_isActive := True\<rparr>"]
  have c5: "Styled_Components_on_page (CSS_initial\<lparr>emotion_isActive := True\<rparr>)
      = Styled_Components_on_page CSS_initial"
    by blast
  from h6 frame[where s' = "toggleTheme ctx_initial"]
  have c6: "AuthButton (toggleTheme ctx_initial) = AuthButton ctx_initial
      \<and> Navbar (toggleTheme ctx_initial) \<noteq> Navbar ctx_initial"
    by blast
  from h7 frame[where s' = "login ctx_initial"]
  have c7: "ThemedButton (login ctx_initial) = ThemedButton ctx_initial
      \<and> Navbar (login ctx_initial) \<noteq> Navbar ctx_initial"
    by blast
  from h1 h2 h3 h4 h5 h6 h7 c1 c2 c3 c4 c5 c6 c7 show ?thesis by blast
qed

subsection \<open>Failure of the fetch\<close>

text \<open>
  Claim C2 says that no example catches an exception or lets a failure reach its state. The
  redux-thunk example does both: when the promise of \<open>fetch\<close> is rejected with the message
  \<open>Failed to fetch\<close>, the thunk's \<open>catch\<close> block dispatches \<open>FETCH_DATA_FAILURE\<close> and the
  store's \<open>error\<close> field, empty before, holds that message.
\<close>

theorem rejected_fetch_reaches_state:
  "get (fst (Redux_App_run [Mount, Fetch_settled (Rejected ''Failed to fetch'')] Redux_initial))
       ''error'' = JStr ''Failed to fetch''
   \<and> get (fst Redux_initial) ''error'' = JStr []"
  unfolding Redux_initial_eq fetch_rejected_run by (simp add: get_def initialState_def)

text \<open>
  Claim C2, amended. The handlers of the \<open>useState\<close> and context demos have no failure
  branch: the event each listens to has its next states and nothing else (one state per
  listener). The redux-thunk example has a failure branch. Started from any store state,
  \<open>fetchData\<close> ends, when \<open>fetch\<close> or \<open>response.json()\<close> is rejected, with \<open>loading\<close>
  false, \<open>data\<close> the empty list and \<open>error\<close> the message of the rejection; when both are
  fulfilled it ends with \<open>loading\<close> false, \<open>data\<close> the parsed body and \<open>error\<close> the empty
  string.
\<close>

theorem fetchData_outcomes:
  "fst (Redux_App_run [Mount, Fetch_settled (Rejected m)] (st, Return))
     = st(''loading'' \<mapsto> JBool False, ''data'' \<mapsto> JArr [], ''error'' \<mapsto> JStr m)
   \<and> fst (Redux_App_run [Mount, Fetch_settled (Fulfilled r), Json_settled (Rejected m)] (st, Return))
     = st(''loading'' \<mapsto> JBool False, ''data'' \<mapsto> JArr [], ''error'' \<mapsto> JStr m)
   \<and> fst (Redux_App_run [Mount, Fetch_settled (Fulfilled r), Json_settled (Fulfilled d)] (st, Return))
     = st(''loading'' \<mapsto> JBool False, ''data'' \<mapsto> d, ''error'' \<mapsto> JStr [])
   \<and> successors Counter (Click ''button'') c = [js_add c 1]
   \<and> successors ThemedButton (Click ''button'') s = [toggleTheme s]
   \<and> successors AuthButton (Click ''button'') s = [s\<lparr>isAuthenticated := \<not> isAuthenticated s\<rparr>]
   \<and> successors WithUseMemo (Click ''button'') ms = [ms\<lparr>count := js_add (count ms) 1\<rparr>]
   \<and> successors Parent (Click ''button'') c = [js_add c 1, c]
   \<and> successors Search (Change ''input'' v) q = [v]
   \<and> successors Using_Inline_Style (Click ''button'') b = [\<not> b]
   \<and> successors Using_CSS_Classes (Click ''button'') b = [\<not> b]
   \<and> successors (Using_CSS_Modules styles) (Click ''button'') b = [\<not> b]
   \<and> successors Using_Styled_Components (Click ''button'') b = [\<not> b]
   \<and> successors Using_Emotion (Click ''button'') b = [\<not> b]"
  unfolding fetch_rejected_run json_rejected_run json_fulfilled_run
  by (simp add: successors_Counter successors_ThemedButton successors_AuthButton
      successors_WithUseMemo successors_Parent successors_Search successors_toggle)

text \<open>
  Claim C2, amended, on the freshly created store: a rejected fetch, a body that does not
  parse, and a body that parses to a list of one item.
\<close>

theorem fetchData_outcomes_witness:
  "fst (Redux_App_run [Mount, Fetch_settled (Rejected ''Failed to fetch'')] (initialState, Return))
     = [''loading'' \<mapsto> JBool False, ''data'' \<mapsto> JArr [], ''error'' \<mapsto> JStr ''Failed to fetch'']
   \<and> fst (Redux_App_run
          [Mount, Fetch_settled (Fulfilled Response), Json_settled (Rejected ''Unexpected token'')]
          (initialState, Return))
     = [''loading'' \<mapsto> JBool False, ''data'' \<mapsto> JArr [], ''error'' \<mapsto> JStr ''Unexpected token'']
   \<and> fst (Redux_App_run
          [Mount, Fetch_settled (Fulfilled Response),
           Json_settled (Fulfilled (JArr [JObj [(''id'', JNum 1), (''name'', JStr ''Ada'')]]))]
          (initialState, Return))
     = [''loading'' \<mapsto> JBool False,
        ''data'' \<mapsto> JArr [JObj [(''id'', JNum 1), (''name'', JStr ''Ada'')]],
        ''error'' \<mapsto> JStr []]
   \<and> successors Counter (Click ''button'') 0 = [1]
   \<and> successors Search (Change ''input'' ''re'') ''r'' = [''re'']"
proof -
  note rejected = fetchData_outcomes
    [where st = initialState and m = "''Failed to fetch''" and c = 0 and v = "''re''" and q = "''r''"]
  note parsed = fetchData_outcomes
    [where st = initialState and m = "''Unexpected token''" and r = Response
       and d = "JArr [JObj [(''id'', JNum 1), (''name'', JStr ''Ada'')]]"]
  have shape: "\<And>l d e. initialState(''loading'' \<mapsto> l, ''data'' \<mapsto> d, ''error'' \<mapsto> e)
      = [''loading'' \<mapsto> l, ''data'' \<mapsto> d, ''error'' \<mapsto> e]"
    by (simp add: initialState_def)
  from rejected parsed show ?thesis
    by (simp only: shape) (simp add: js_add_exact)
qed

subsection \<open>Two clicks in a row\<close>

text \<open>
  Claim C3 says that in each named component two clicks bring the state back. In \<open>Counter\<close>
  they do not: from \<open>0\<close>, its initial value, the first click gives \<open>1\<close> and the second
  gives \<open>2\<close>.
\<close>

theorem counter_two_clicks:
  "Counter_initial = 0
   \<and> ui_step Counter 0 (Click ''button'') 1 \<and> ui_step Counter 1 (Click ''button'') 2
   \<and> (2::int) \<noteq> 0"
  by (simp add: ui_step_def successors_Counter Counter_initial_def js_add_exact)

text \<open>
  Claim C3, amended. In each of the five CSS-toggling demos the only step is the click on
  the button, and it negates the boolean held; in \<open>AuthButton\<close> likewise for
  \<open>isAuthenticated\<close>. In \<open>ThemedButton\<close> the only step is the click, which sets the theme
  to \<open>dark\<close> if it was \<open>light\<close> and to \<open>light\<close> otherwise: when the theme is one of the
  two it becomes the other one. For all of these, two steps in a row give the state back.

  In \<open>Counter\<close> and the \<open>useMemo\<close> demo the only step is the click, which sets the count
  to \<open>count + 1\<close> as JavaScript computes it. From a count between \<open>0\<close> and \<open>2^53 - 2\<close> the
  first click gives one more and the second two more than at the start, so the state is not
  back. At \<open>2^53\<close> the sum rounds to \<open>2^53\<close> and the click leaves the count where it is.
  \<open>Parent\<close> of the \<open>useCallback\<close> demo has two buttons: \<open>Increment\<close> sets the count
  to \<open>count + 1\<close> in the same way, and \<open>Click Me\<close> of \<open>Child\<close> leaves the state as it is.
\<close>

theorem click_twice:
  "(ui_step Using_Inline_Style b ev b_mid \<longleftrightarrow> ev = Click ''button'' \<and> b_mid = (\<not> b))
   \<and> (ui_step Using_CSS_Classes b ev b_mid \<longleftrightarrow> ev = Click ''button'' \<and> b_mid = (\<not> b))
   \<and> (ui_step (Using_CSS_Modules styles) b ev b_mid \<longleftrightarrow> ev = Click ''button'' \<and> b_mid = (\<not> b))
   \<and> (ui_step Using_Styled_Components b ev b_mid \<longleftrightarrow> ev = Click ''button'' \<and> b_mid = (\<not> b))
   \<and> (ui_step Using_Emotion b ev b_mid \<longleftrightarrow> ev = Click ''button'' \<and> b_mid = (\<not> b))
   \<and> (ui_step AuthButton s ev s_mid \<longleftrightarrow>
        ev = Click ''button'' \<and> s_mid = s\<lparr>isAuthenticated := \<not> isAuthenticated s\<rparr>)
   \<and> (ui_step ThemedButton s ev s_mid \<longleftrightarrow>
        ev = Click ''button''
        \<and> s_mid = s\<lparr>theme := (if theme s = ''light'' then ''dark'' else ''light'')\<rparr>)
   \<and> (theme s \<in> {''light'', ''dark''} \<and> ui_step ThemedButton s ev s_mid
        \<longrightarrow> theme s_mid \<in> {''light'', ''dark''} \<and> theme s_mid \<noteq> theme s)
   \<and> (ui_step Using_Inline_Style b ev b_mid \<and> ui_step Using_Inline_Style b_mid ev' b_end
        \<longrightarrow> b_end = b)
   \<and> (ui_step Using_CSS_Classes b ev b_mid \<and> ui_step Using_CSS_Classes b_mid ev' b_end
        \<longrightarrow> b_end = b)
   \<and> (ui_step (Using_CSS_Modules styles) b ev b_mid \<and> ui_step (Using_CSS_Modules styles) b_mid ev' b_end
        \<longrightarrow> b_end = b)
   \<and> (ui_step Using_Styled_Components b ev b_mid \<and> ui_step Using_Styled_Components b_mid ev' b_end
        \<longrightarrow> b_end = b)
   \<and> (ui_step Using_Emotion b ev b_mid \<and> ui_step Using_Emotion b_mid ev' b_end \<longrightarrow> b_end = b)
   \<and> (ui_step AuthButton s ev s_mid \<and> ui_step AuthButton s_mid ev' s_end \<longrightarrow> s_end = s)
   \<and> (theme s \<in> {''light'', ''dark''}
        \<and> ui_step ThemedButton s ev s_mid \<and> ui_step ThemedButton s_mid ev' s_end \<longrightarrow> s_end = s)
   \<and> (ui_step Counter c ev c_mid \<longleftrightarrow> ev = Click ''button'' \<and> c_mid = js_add c 1)
   \<and> (0 \<le> c \<and> c + 2 \<le> 2 ^ 53 \<and> ui_step Counter c ev c_mid \<and> ui_step Counter c_mid ev' c_end
        \<longrightarrow> c_mid = c + 1 \<and> c_end = c + 2 \<and> c_end \<noteq> c)
   \<and> (ui_step Counter (2 ^ 53) ev c_mid \<longrightarrow> c_mid = 2 ^ 53)
   \<and> (ui_step WithUseMemo ms ev ms_mid \<longleftrightarrow>
        ev = Click ''button'' \<and> ms_mid = ms\<lparr>count := js_add (count ms) 1\<rparr>)
   \<and> (0 \<le> count ms \<and> count ms + 2 \<le> 2 ^ 53
        \<and> ui_step WithUseMemo ms ev ms_mid \<and> ui_step WithUseMemo ms_mid ev' ms_end
        \<longrightarrow> count ms_mid = count ms + 1 \<and> count ms_end = count ms + 2
            \<and> number ms_end = number ms \<and> ms_end \<noteq> ms)
   \<and> (count ms = 2 ^ 53 \<and> ui_step WithUseMemo ms ev ms_mid \<longrightarrow> ms_mid = ms)
   \<and> (ui_step Parent c ev c_mid \<longleftrightarrow> ev = Click ''button'' \<and> (c_mid = js_add c 1 \<or> c_mid = c))
   \<and> listeners (Parent c)
       = [(''button'', OnClick (\<lambda>_. js_add c 1)), (''button'', OnClick (\<lambda>st. st))]
   \<and> (0 \<le> c \<and> c + 1 \<le> 2 ^ 53 \<longrightarrow> js_add c 1 = c + 1)
   \<and> js_add (2 ^ 53) 1 = 2 ^ 53"
proof -
  have exact: "js_add n 1 = n + 1" if "0 \<le> n" "n + 1 \<le> 2 ^ 53" for n
    using that by (intro js_add_exact) simp
  have step_toggle:
    "ui_step Using_Inline_Style x e y \<longleftrightarrow> e = Click ''button'' \<and> y = (\<not> x)"
    "ui_step Using_CSS_Classes x e y \<longleftrightarrow> e = Click ''button'' \<and> y = (\<not> x)"
    "ui_step (Using_CSS_Modules styles) x e y \<longleftrightarrow> e = Click ''button'' \<and> y = (\<not> x)"
    "ui_step Using_Styled_Components x e y \<longleftrightarrow> e = Click ''button'' \<and> y = (\<not> x)"
    "ui_step Using_Emotion x e y \<longleftrightarrow> e = Click ''button'' \<and> y = (\<not> x)"
    for x e y
    by (auto simp: ui_step_def successors_toggle)
  have step_auth: "ui_step AuthButton x e y \<longleftrightarrow>
      e = Click ''button'' \<and> y = x\<lparr>isAuthenticated := \<not> isAuthenticated x\<rparr>" for x e y
    by (auto simp: ui_step_def successors_AuthButton)
  have step_themed: "ui_step ThemedButton x e y \<longleftrightarrow>
      e = Click ''button''
      \<and> y = x\<lparr>theme := (if theme x = ''light'' then ''dark'' else ''light'')\<rparr>" for x e y
    by (auto simp: ui_step_def successors_ThemedButton toggleTheme_eq)
  have step_counter: "ui_step Counter x e y \<longleftrightarrow> e = Click ''button'' \<and> y = js_add x 1"
    for x e y
    by (auto simp: ui_step_def successors_Counter)
  have step_memo: "ui_step WithUseMemo x e y \<longleftrightarrow>
      e = Click ''button'' \<and> y = x\<lparr>count := js_add (count x) 1\<rparr>" for x e y
    by (auto simp: ui_step_def successors_WithUseMemo)
  have step_parent: "ui_step Parent c ev c_mid \<longleftrightarrow>
      ev = Click ''button'' \<and> (c_mid = js_add c 1 \<or> c_mid = c)"
    by (auto simp: ui_step_def successors_Parent)
  have handlers: "listeners (Parent c)
      = [(''button'', OnClick (\<lambda>_. js_add c 1)), (''button'', OnClick (\<lambda>st. st))]"
    by (simp add: Parent_def Child_def)
  have themed_flip: "theme s \<in> {''light'', ''dark''} \<and> ui_step ThemedButton s ev s_mid
      \<longrightarrow> theme s_mid \<in> {''light'', ''dark''} \<and> theme s_mid \<noteq> theme s"
    by (auto simp: step_themed)
  have twice_toggle:
    "ui_step Using_Inline_Style b ev b_mid \<and> ui_step Using_Inline_Style b_mid ev' b_end
       \<longrightarrow> b_end = b"
    "ui_step Using_CSS_Classes b ev b_mid \<and> ui_step Using_CSS_Classes b_mid ev' b_end
       \<longrightarrow> b_end = b"
    "ui_step (Using_CSS_Modules styles) b ev b_mid \<and> ui_step (Using_CSS_Modules styles) b_mid ev' b_end
       \<longrightarrow> b_end = b"
    "ui_step Using_Styled_Components b ev b_mid \<and> ui_step Using_Styled_Components b_mid ev' b_end
       \<longrightarrow> b_end = b"
    "ui_step Using_Emotion b ev b_mid \<and> ui_step Using_Emotion b_mid ev' b_end \<longrightarrow> b_end = b"
    by (simp_all add: step_toggle)
  have twice_auth: "ui_step AuthButton s ev s_mid \<and> ui_step AuthButton s_mid ev' s_end \<longrightarrow> s_end = s"
    by (auto simp: step_auth)
  have twice_themed: "theme s \<in> {''light'', ''dark''}
      \<and> ui_step ThemedButton s ev s_mid \<and> ui_step ThemedButton s_mid ev' s_end \<longrightarrow> s_end = s"
    by (auto simp: step_themed)
  have twice_counter: "0 \<le> c \<and> c + 2 \<le> 2 ^ 53 \<and> ui_step Counter c ev c_mid
      \<and> ui_step Counter c_mid ev' c_end
      \<longrightarrow> c_mid = c + 1 \<and> c_end = c + 2 \<and> c_end \<noteq> c"
    by (auto simp: step_counter exact)
  have stuck_counter: "ui_step Counter (2 ^ 53) ev c_mid \<longrightarrow> c_mid = 2 ^ 53"
    using js_add_stuck by (simp add: step_counter)
  have twice_memo: "0 \<le> count ms \<and> count ms + 2 \<le> 2 ^ 53
      \<and> ui_step WithUseMemo ms ev ms_mid \<and> ui_step WithUseMemo ms_mid ev' ms_end
      \<longrightarrow> count ms_mid = count ms + 1 \<and> count ms_end = count ms + 2
          \<and> number ms_end = number ms \<and> ms_end \<noteq> ms"
    by (auto simp: step_memo exact dest: arg_cong[where f = count])
  have stuck_memo: "count ms = 2 ^ 53 \<and> ui_step WithUseMemo ms ev ms_mid \<longrightarrow> ms_mid = ms"
  proof (intro impI, elim conjE)
    assume at_top: "count ms = 2 ^ 53" and "ui_step WithUseMemo ms ev ms_mid"
    then have "ms_mid = ms\<lparr>count := js_add (2 ^ 53) 1\<rparr>"
      by (simp add: step_memo)
    then have "ms_mid = ms\<lparr>count := count ms\<rparr>"
      by (simp only: js_add_stuck at_top)
    then show "ms_mid = ms"
      by simp
  qed
  have exact_here: "0 \<le> c \<and> c + 1 \<le> 2 ^ 53 \<longrightarrow> js_add c 1 = c + 1"
    by (simp add: exact)
  show ?thesis
    by (intro conjI)
      (fact step_toggle step_auth step_themed themed_flip twice_toggle twice_auth twice_themed
        step_counter twice_counter stuck_counter step_memo twice_memo stuck_memo step_parent
        handlers exact_here js_add_stuck)+
qed

text \<open>
  Claim C3, amended, from the initial states: two clicks on each toggle, on \<open>AuthButton\<close>
  and on \<open>ThemedButton\<close>; two clicks on \<open>Counter\<close> and on the \<open>useMemo\<close> demo from
  count \<open>0\<close>, and one click on each of them at count \<open>2^53\<close>; one click on \<open>Parent\<close>.
\<close>

theorem click_twice_witness:
  "ui_step Using_Inline_Style False (Click ''button'') True
   \<and> ui_step Using_Inline_Style True (Click ''button'') False
   \<and> ui_step Using_CSS_Classes False (Click ''button'') True
   \<and> ui_step Using_CSS_Classes True (Click ''button'') False
   \<and> ui_step (Using_CSS_Modules (JObj [])) True (Click ''button'') False
   \<and> ui_step (Using_CSS_Modules (JObj [])) False (Click ''button'') True
   \<and> ui_step Using_Styled_Components False (Click ''button'') True
   \<and> ui_step Using_Styled_Components True (Click ''button'') False
   \<and> ui_step Using_Emotion False (Click ''button'') True
   \<and> ui_step Using_Emotion True (Click ''button'') False
   \<and> ui_step AuthButton ctx_initial (Click ''button'') (ctx_initial\<lparr>isAuthenticated := True\<rparr>)
   \<and> ui_step AuthButton (ctx_initial\<lparr>isAuthenticated := True\<rparr>) (Click ''button'') ctx_initial
   \<and> theme ctx_initial \<in> {''light'', ''dark''}
   \<and> ui_step ThemedButton ctx_initial (Click ''button'') (ctx_initial\<lparr>theme := ''dark''\<rparr>)
   \<and> ui_step ThemedButton (ctx_initial\<lparr>theme := ''dark''\<rparr>) (Click ''button'') ctx_initial
   \<and> theme (ctx_initial\<lparr>theme := ''dark''\<rparr>) \<noteq> theme ctx_initial
   \<and> ui_step Counter 0 (Click ''button'') 1 \<and> ui_step Counter 1 (Click ''button'') 2
   \<and> ui_step Counter (2 ^ 53) (Click ''button'') (2 ^ 53)
   \<and> ui_step WithUseMemo WithUseMemo_initial (Click ''button'') (WithUseMemo_initial\<lparr>count := 1\<rparr>)
   \<and> ui_step WithUseMemo (WithUseMemo_initial\<lparr>count := 1\<rparr>) (Click ''button'')
        (WithUseMemo_initial\<lparr>count := 2\<rparr>)
   \<and> WithUseMemo_initial\<lparr>count := 2\<rparr> \<noteq> WithUseMemo_initial
   \<and> ui_step WithUseMemo (WithUseMemo_initial\<lparr>count := 2 ^ 53\<rparr>) (Click ''button'')
        (WithUseMemo_initial\<lparr>count := 2 ^ 53\<rparr>)
   \<and> ui_step Parent 0 (Click ''button'') 1 \<and> ui_step Parent 0 (Click ''button'') 0
   \<and> listeners (Parent 0) = [(''button'', OnClick (\<lambda>_. 1)), (''button'', OnClick (\<lambda>st. st))]"
proof -
  let ?ev = "Click ''button''"
  let ?dark = "ctx_initial\<lparr>theme := ''dark''\<rparr>"
  let ?one = "WithUseMemo_initial\<lparr>count := 1\<rparr>"
  let ?two = "WithUseMemo_initial\<lparr>count := 2\<rparr>"
  let ?top = "WithUseMemo_initial\<lparr>count := 2 ^ 53\<rparr>"
  have sums: "js_add 0 1 = 1" "js_add 1 1 = 2"
    by (simp_all add: js_add_exact)
  have toggle:
    "ui_step Using_Inline_Style False ?ev True" "ui_step Using_Inline_Style True ?ev False"
    "ui_step Using_CSS_Classes False ?ev True" "ui_step Using_CSS_Classes True ?ev False"
    "ui_step (Using_CSS_Modules (JObj [])) True ?ev False"
    "ui_step (Using_CSS_Modules (JObj [])) False ?ev True"
    "ui_step Using_Styled_Components False ?ev True" "ui_step Using_Styled_Components True ?ev False"
    "ui_step Using_Emotion False ?ev True" "ui_step Using_Emotion True ?ev False"
    by (simp_all add: ui_step_def successors_toggle)
  have auth: "ui_step AuthButton ctx_initial ?ev (ctx_initial\<lparr>isAuthenticated := True\<rparr>)"
    "ui_step AuthButton (ctx_initial\<lparr>isAuthenticated := True\<rparr>) ?ev ctx_initial"
    by (simp_all add: ui_step_def successors_AuthButton ctx_initial_def)
  have light: "theme ctx_initial \<in> {''light'', ''dark''}"
    by (simp add: ctx_initial_def)
  have themed: "ui_step ThemedButton ctx_initial ?ev ?dark" "ui_step ThemedButton ?dark ?ev ctx_initial"
    by (simp_all add: ui_step_def successors_ThemedButton toggleTheme_eq ctx_initial_def)
  have counter: "ui_step Counter 0 ?ev 1" "ui_step Counter 1 ?ev 2"
    by (simp_all add: ui_step_def successors_Counter sums)
  have memo: "ui_step WithUseMemo WithUseMemo_initial ?ev ?one" "ui_step WithUseMemo ?one ?ev ?two"
    by (simp_all add: ui_step_def successors_WithUseMemo WithUseMemo_initial_def sums)
  have parent: "ui_step Parent 0 ?ev 1" "ui_step Parent 0 ?ev 0"
    by (simp_all add: ui_step_def successors_Parent sums)
  have range: "(0::int) \<le> 0" "(0::int) + 2 \<le> 2 ^ 53"
    "0 \<le> count WithUseMemo_initial" "count WithUseMemo_initial + 2 \<le> 2 ^ 53"
    by (simp_all add: WithUseMemo_initial_def)
  note first_clicks = click_twice
    [where b = False and ev = ?ev and b_mid = True and styles = "JObj []" and ev' = ?ev
       and b_end = False and s = ctx_initial and s_mid = ?dark and s_end = ctx_initial
       and c = 0 and c_mid = 1 and c_end = 2
       and ms = WithUseMemo_initial and ms_mid = ?one and ms_end = ?two]
  note at_top = click_twice
    [where b = False and ev = ?ev and b_mid = True and styles = "JObj []" and ev' = ?ev
       and b_end = False and s = ctx_initial and s_mid = ?dark and s_end = ctx_initial
       and c = "2 ^ 53" and c_mid = "2 ^ 53" and c_end = "2 ^ 53"
       and ms = ?top and ms_mid = ?top and ms_end = ?top]
  have "theme ctx_initial \<in> {''light'', ''dark''} \<and> ui_step ThemedButton ctx_initial ?ev ?dark
      \<longrightarrow> theme ?dark \<in> {''light'', ''dark''} \<and> theme ?dark \<noteq> theme ctx_initial"
    using first_clicks by - (elim conjE, assumption)
  with light themed(1) have other: "theme ?dark \<noteq> theme ctx_initial"
    by simp
  have "ui_step Counter (2 ^ 53) ?ev (2 ^ 53) \<longleftrightarrow>
      ?ev = Click ''button'' \<and> 2 ^ 53 = js_add (2 ^ 53) 1"
    using at_top by - (elim conjE, assumption)
  moreover have top: "js_add (2 ^ 53) 1 = 2 ^ 53"
    using at_top by - (elim conjE, assumption)
  ultimately have counter_top: "ui_step Counter (2 ^ 53) ?ev (2 ^ 53)"
    by simp
  have "0 \<le> count WithUseMemo_initial \<and> count WithUseMemo_initial + 2 \<le> 2 ^ 53
      \<and> ui_step WithUseMemo WithUseMemo_initial ?ev ?one \<and> ui_step WithUseMemo ?one ?ev ?two
      \<longrightarrow> count ?one = count WithUseMemo_initial + 1 \<and> count ?two = count WithUseMemo_initial + 2
          \<and> number ?two = number WithUseMemo_initial \<and> ?two \<noteq> WithUseMemo_initial"
    using first_clicks by - (elim conjE, assumption)
  with range memo have differs: "?two \<noteq> WithUseMemo_initial"
    by blast
  have "ui_step WithUseMemo ?top ?ev ?top \<longleftrightarrow>
      ?ev = Click ''button'' \<and> ?top = ?top\<lparr>count := js_add (count ?top) 1\<rparr>"
    using at_top by - (elim conjE, assumption)
  then have memo_top: "ui_step WithUseMemo ?top ?ev ?top"
    using top by simp
  have "listeners (Parent 0)
      = [(''button'', OnClick (\<lambda>_. js_add 0 1)), (''button'', OnClick (\<lambda>st. st))]"
    using first_clicks by - (elim conjE, assumption)
  then have handlers:
    "listeners (Parent 0) = [(''button'', OnClick (\<lambda>_. 1)), (''button'', OnClick (\<lambda>st. st))]"
    by (simp add: sums)
  show ?thesis
    by (intro conjI)
      (fact toggle auth light themed other counter counter_top memo differs memo_top parent handlers)+
qed

subsection \<open>The kinds of state\<close>

text \<open>
  Claim C4 says that every piece of state is a boolean, a number or a string. The \<open>data\<close>
  field of the redux-thunk store is not: in the store's first state it is the empty list.
\<close>

theorem redux_data_not_primitive:
  "get (fst Redux_initial) ''data'' = JArr [] \<and> \<not> is_primitive (get (fst Redux_initial) ''data'')"
  by (simp add: Redux_initial_eq get_def initialState_def)

text \<open>
  Claim C4, amended. In the demos the spec names, every \<open>useState\<close> cell holds a value of
  one primitive kind, at the start and after every call of its setter, as JavaScript
  evaluates the argument of that call: the five CSS toggles (started at \<open>false\<close>, the CSS
  Modules one at \<open>true\<close>) and \<open>isAuthenticated\<close> a boolean; the count of \<open>Counter\<close>, of
  the \<open>useMemo\<close> demo and of \<open>Parent\<close> a number, the addition never meeting an operand
  that is not a number; \<open>number\<close> of the \<open>useMemo\<close> demo the number \<open>10\<close>; the query of
  \<open>Search\<close> a string; the theme one of the strings \<open>light\<close> and \<open>dark\<close>. The steps of
  the typed components are such writes, and their initial states are these initial values.

  Two examples hold an object instead. \<open>formData\<close> of \<open>ControlledForm\<close> is an object with
  the string fields \<open>name\<close> and \<open>email\<close>, and \<open>handleChange\<close> writes an object again, with
  the named field set to the typed string and every other field as it was. The state of the
  redux-thunk store is an object whose \<open>loading\<close> is a boolean and whose \<open>error\<close> is a
  string, at the start and after each action that \<open>fetchData\<close> dispatches; its \<open>data\<close> is
  a list at the start, is left alone by the request, becomes the payload on success and the
  empty list on failure.
\<close>

theorem state_typing:
  "(cell_reachable (JBool False) toggle_write v \<longrightarrow> is_boolean v)
   \<and> (cell_reachable (JBool True) toggle_write v \<longrightarrow> is_boolean v)
   \<and> (cell_reachable (JBool False) isAuthenticated_write v \<longrightarrow> is_boolean v)
   \<and> (cell_reachable (JNum 0) count_write v \<longrightarrow> is_number v \<and> js_plus v (JNum 1) \<noteq> None)
   \<and> (cell_reachable (JNum 10) number_write v \<longrightarrow> v = JNum 10)
   \<and> (cell_reachable (JStr []) query_write v \<longrightarrow> is_string v)
   \<and> (cell_reachable (JStr ''light'') theme_write v \<longrightarrow> v = JStr ''light'' \<or> v = JStr ''dark'')
   \<and> (ui_step Using_Inline_Style b ev b' \<longrightarrow> toggle_write (JBool b) (JBool b'))
   \<and> (ui_step Using_CSS_Classes b ev b' \<longrightarrow> toggle_write (JBool b) (JBool b'))
   \<and> (ui_step (Using_CSS_Modules styles) b ev b' \<longrightarrow> toggle_write (JBool b) (JBool b'))
   \<and> (ui_step Using_Styled_Components b ev b' \<longrightarrow> toggle_write (JBool b) (JBool b'))
   \<and> (ui_step Using_Emotion b ev b' \<longrightarrow> toggle_write (JBool b) (JBool b'))
   \<and> (ui_step AuthButton s ev s' \<longrightarrow>
        isAuthenticated_write (JBool (isAuthenticated s)) (JBool (isAuthenticated s'))
        \<and> theme s' = theme s)
   \<and> (ui_step ThemedButton s ev s' \<longrightarrow>
        theme_write (JStr (theme s)) (JStr (theme s')) \<and> isAuthenticated s' = isAuthenticated s)
   \<and> (ui_step Counter c ev c' \<longrightarrow> count_write (JNum c) (JNum c'))
   \<and> (ui_step Parent c ev c' \<longrightarrow> c' = c \<or> count_write (JNum c) (JNum c'))
   \<and> (ui_step WithUseMemo ms ev ms' \<longrightarrow>
        count_write (JNum (count ms)) (JNum (count ms')) \<and> number ms' = number ms)
   \<and> (ui_step Search q ev q' \<longrightarrow> query_write (JStr q) (JStr q'))
   \<and> CSS_initial = \<lparr>inline_isActive = False, isDark = False, isSuccess = True,
                      primary = False, emotion_isActive = False\<rparr>
   \<and> ctx_initial = \<lparr>theme = ''light'', isAuthenticated = False\<rparr>
   \<and> Counter_initial = 0 \<and> WithUseMemo_initial = \<lparr>count = 0, number = 10\<rparr>
   \<and> Search_initial = []
   \<and> ControlledForm_initial = JObj [(''name'', JStr []), (''email'', JStr [])]
   \<and> \<not> is_primitive ControlledForm_initial
   \<and> \<not> is_primitive (ControlledForm_handleChange target entered formData)
   \<and> field (ControlledForm_handleChange target entered formData) k
       = (if k = target then JStr entered else field (JObj formData) k)
   \<and> is_boolean (get initialState ''loading'') \<and> is_array (get initialState ''data'')
   \<and> is_string (get initialState ''error'')
   \<and> (a \<in> {fetchDataRequest, fetchDataSuccess d, fetchDataFailure (JStr m)}
        \<and> is_boolean (get st ''loading'') \<and> is_string (get st ''error'')
      \<longrightarrow> is_boolean (get (dataReducer (Some st) a) ''loading'')
          \<and> is_string (get (dataReducer (Some st) a) ''error''))
   \<and> get (dataReducer (Some st) fetchDataRequest) ''data'' = get st ''data''
   \<and> get (dataReducer (Some st) (fetchDataSuccess d)) ''data'' = d
   \<and> get (dataReducer (Some st) (fetchDataFailure (JStr m))) ''data'' = JArr []"
proof -
  have toggles:
    "cell_reachable (JBool False) toggle_write v \<longrightarrow> is_boolean v"
    "cell_reachable (JBool True) toggle_write v \<longrightarrow> is_boolean v"
    using toggle_cell_boolean[of _ v] by auto
  have auth: "cell_reachable (JBool False) isAuthenticated_write v \<longrightarrow> is_boolean v"
    using isAuthenticated_cell_boolean[of _ v] by auto
  have counts: "cell_reachable (JNum 0) count_write v \<longrightarrow> is_number v \<and> js_plus v (JNum 1) \<noteq> None"
  proof
    assume "cell_reachable (JNum 0) count_write v"
    then have "is_number v"
      by (rule count_cell_number) simp
    then show "is_number v \<and> js_plus v (JNum 1) \<noteq> None"
      by (cases v) simp_all
  qed
  have numbers: "cell_reachable (JNum 10) number_write v \<longrightarrow> v = JNum 10"
    using number_cell_constant[of _ v] by auto
  have queries: "cell_reachable (JStr []) query_write v \<longrightarrow> is_string v"
    using query_cell_string[of _ v] by auto
  have themes: "cell_reachable (JStr ''light'') theme_write v \<longrightarrow> v = JStr ''light'' \<or> v = JStr ''dark''"
    using theme_cell_light_dark[of v] by auto
  have toggle_steps:
    "ui_step Using_Inline_Style b ev b' \<longrightarrow> toggle_write (JBool b) (JBool b')"
    "ui_step Using_CSS_Classes b ev b' \<longrightarrow> toggle_write (JBool b) (JBool b')"
    "ui_step (Using_CSS_Modules styles) b ev b' \<longrightarrow> toggle_write (JBool b) (JBool b')"
    "ui_step Using_Styled_Components b ev b' \<longrightarrow> toggle_write (JBool b) (JBool b')"
    "ui_step Using_Emotion b ev b' \<longrightarrow> toggle_write (JBool b) (JBool b')"
    by (auto simp: ui_step_def successors_toggle toggle_write_def js_not_def split: if_splits)
  have auth_step: "ui_step AuthButton s ev s' \<longrightarrow>
      isAuthenticated_write (JBool (isAuthenticated s)) (JBool (isAuthenticated s'))
      \<and> theme s' = theme s"
    by (auto simp: ui_step_def successors_AuthButton isAuthenticated_write_def split: if_splits)
  have theme_step: "ui_step ThemedButton s ev s' \<longrightarrow>
      theme_write (JStr (theme s)) (JStr (theme s')) \<and> isAuthenticated s' = isAuthenticated s"
    by (auto simp: ui_step_def successors_ThemedButton toggleTheme_eq theme_write_def
        split: if_splits)
  have count_steps:
    "ui_step Counter c ev c' \<longrightarrow> count_write (JNum c) (JNum c')"
    "ui_step Parent c ev c' \<longrightarrow> c' = c \<or> count_write (JNum c) (JNum c')"
    "ui_step WithUseMemo ms ev ms' \<longrightarrow>
       count_write (JNum (count ms)) (JNum (count ms')) \<and> number ms' = number ms"
    by (auto simp: ui_step_def successors_Counter successors_Parent successors_WithUseMemo
        count_write_def split: if_splits)
  have query_step: "ui_step Search q ev q' \<longrightarrow> query_write (JStr q) (JStr q')"
    by (simp add: query_write_def)
  have initials:
    "CSS_initial = \<lparr>inline_isActive = False, isDark = False, isSuccess = True,
                     primary = False, emotion_isActive = False\<rparr>"
    "ctx_initial = \<lparr>theme = ''light'', isAuthenticated = False\<rparr>"
    "Counter_initial = 0" "WithUseMemo_initial = \<lparr>count = 0, number = 10\<rparr>"
    "Search_initial = []"
    "ControlledForm_initial = JObj [(''name'', JStr []), (''email'', JStr [])]"
    by (simp_all add: CSS_initial_def ctx_initial_def Counter_initial_def WithUseMemo_initial_def
        Search_initial_def ControlledForm_initial_def)
  have form:
    "\<not> is_primitive ControlledForm_initial"
    "\<not> is_primitive (ControlledForm_handleChange target entered formData)"
    "field (ControlledForm_handleChange target entered formData) k
       = (if k = target then JStr entered else field (JObj formData) k)"
    by (simp_all only: ControlledForm_initial_def ControlledForm_handleChange_def set_property_field)
      simp_all
  have store_start:
    "is_boolean (get initialState ''loading'')" "is_array (get initialState ''data'')"
    "is_string (get initialState ''error'')"
    by (simp_all add: get_def initialState_def)
  have store_step: "a \<in> {fetchDataRequest, fetchDataSuccess d, fetchDataFailure (JStr m)}
        \<and> is_boolean (get st ''loading'') \<and> is_string (get st ''error'')
      \<longrightarrow> is_boolean (get (dataReducer (Some st) a) ''loading'')
          \<and> is_string (get (dataReducer (Some st) a) ''error'')"
    by (auto simp: dataReducer_request dataReducer_success dataReducer_failure get_def)
  have store_data:
    "get (dataReducer (Some st) fetchDataRequest) ''data'' = get st ''data''"
    "get (dataReducer (Some st) (fetchDataSuccess d)) ''data'' = d"
    "get (dataReducer (Some st) (fetchDataFailure (JStr m))) ''data'' = JArr []"
    by (simp_all add: dataReducer_request dataReducer_success dataReducer_failure get_def)
  show ?thesis
    by (intro conjI)
      (fact toggles auth counts numbers queries themes toggle_steps auth_step theme_step
        count_steps query_step initials form store_start store_step store_data)+
qed

text \<open>
  Claim C4, amended, on values that are reached: \<open>true\<close> in a toggle and in
  \<open>isAuthenticated\<close>, \<open>1\<close> in a count, \<open>10\<close> in \<open>number\<close>, a typed query, the theme
  \<open>dark\<close>; on one step of each typed component; on the form after \<open>a@b.c\<close> is typed
  into its email field; and on the first store state and a successful fetch of a one-element
  list.
\<close>

theorem state_typing_witness:
  "cell_reachable (JBool False) toggle_write (JBool True)
   \<and> cell_reachable (JBool True) toggle_write (JBool True)
   \<and> cell_reachable (JBool False) isAuthenticated_write (JBool True)
   \<and> is_boolean (JBool True)
   \<and> cell_reachable (JNum 0) count_write (JNum 1)
   \<and> is_number (JNum 1) \<and> js_plus (JNum 1) (JNum 1) \<noteq> None
   \<and> cell_reachable (JNum 10) number_write (JNum 10)
   \<and> cell_reachable (JStr []) query_write (JStr ''re'')
   \<and> is_string (JStr ''re'')
   \<and> cell_reachable (JStr ''light'') theme_write (JStr ''dark'')
   \<and> ui_step Using_CSS_Classes False (Click ''button'') True
   \<and> toggle_write (JBool False) (JBool True)
   \<and> ui_step AuthButton ctx_initial (Click ''button'') (ctx_initial\<lparr>isAuthenticated := True\<rparr>)
   \<and> isAuthenticated_write (JBool False) (JBool True)
   \<and> ui_step ThemedButton ctx_initial (Click ''button'') (ctx_initial\<lparr>theme := ''dark''\<rparr>)
   \<and> theme_write (JStr ''light'') (JStr ''dark'')
   \<and> ui_step Counter 0 (Click ''button'') 1
   \<and> count_write (JNum 0) (JNum 1)
   \<and> ui_step Search [] (Change ''input'' ''r'') ''r''
   \<and> query_write (JStr []) (JStr ''r'')
   \<and> field (ControlledForm_handleChange ''email'' ''a@b.c''
              [(''name'', JStr []), (''email'', JStr [])]) ''email'' = JStr ''a@b.c''
   \<and> field (ControlledForm_handleChange ''email'' ''a@b.c''
              [(''name'', JStr []), (''email'', JStr [])]) ''name'' = JStr []
   \<and> is_boolean (get (dataReducer (Some initialState) (fetchDataSuccess (JArr [JNum 7]))) ''loading'')
   \<and> is_string (get (dataReducer (Some initialState) (fetchDataSuccess (JArr [JNum 7]))) ''error'')
   \<and> get (dataReducer (Some initialState) (fetchDataSuccess (JArr [JNum 7]))) ''data'' = JArr [JNum 7]"
proof -
  let ?click = "Click ''button''"
  let ?in = "ctx_initial\<lparr>isAuthenticated := True\<rparr>"
  let ?dark = "ctx_initial\<lparr>theme := ''dark''\<rparr>"
  let ?form = "[(''name'', JStr []), (''email'', JStr [])]"
  let ?success = "fetchDataSuccess (JArr [JNum 7])"
  note base = state_typing
    [where b = False and b' = True and styles = "JObj []" and c = 0 and c' = 1
       and ms = WithUseMemo_initial and ms' = "WithUseMemo_initial\<lparr>count := 1\<rparr>"
       and q = "[]" and q' = "''r''"
       and target = "''email''" and entered = "''a@b.c''" and formData = ?form
       and a = ?success and d = "JArr [JNum 7]" and m = "''Failed to fetch''"
       and st = initialState]
  note clicked = base[where ev = ?click and s = ctx_initial and k = "''email''"]
  have one: "js_add 0 1 = 1"
    by (simp add: js_add_exact)
  have reach:
    "cell_reachable (JBool False) toggle_write (JBool True)"
    "cell_reachable (JBool True) toggle_write (JBool True)"
    "cell_reachable (JBool False) isAuthenticated_write (JBool True)"
    "cell_reachable (JNum 0) count_write (JNum 1)"
    "cell_reachable (JNum 10) number_write (JNum 10)"
    "cell_reachable (JStr []) query_write (JStr ''re'')"
    "cell_reachable (JStr ''light'') theme_write (JStr ''dark'')"
    by (rule cell_first
        | rule cell_next[OF cell_first],
          simp add: toggle_write_def js_not_def isAuthenticated_write_def count_write_def one
            query_write_def theme_write_def)+
  have steps:
    "ui_step Using_CSS_Classes False ?click True"
    "ui_step AuthButton ctx_initial ?click ?in"
    "ui_step ThemedButton ctx_initial ?click ?dark"
    "ui_step Counter 0 ?click 1"
    "ui_step Search [] (Change ''input'' ''r'') ''r''"
    by (simp_all add: ui_step_def successors_toggle successors_AuthButton successors_ThemedButton
        toggleTheme_eq successors_Counter successors_Search one ctx_initial_def)
  have "cell_reachable (JBool False) toggle_write (JBool True) \<longrightarrow> is_boolean (JBool True)"
    using clicked[where v = "JBool True" and s' = ?in] by - (elim conjE, assumption)
  with reach(1) have boolean: "is_boolean (JBool True)"
    by blast
  have "cell_reachable (JNum 0) count_write (JNum 1)
      \<longrightarrow> is_number (JNum 1) \<and> js_plus (JNum 1) (JNum 1) \<noteq> None"
    using clicked[where v = "JNum 1" and s' = ?in] by - (elim conjE, assumption)
  with reach(4) have number: "is_number (JNum 1)" "js_plus (JNum 1) (JNum 1) \<noteq> None"
    by blast+
  have "cell_reachable (JStr []) query_write (JStr ''re'') \<longrightarrow> is_string (JStr ''re'')"
    using clicked[where v = "JStr ''re''" and s' = ?in] by - (elim conjE, assumption)
  with reach(6) have string: "is_string (JStr ''re'')"
    by blast
  have "ui_step Using_CSS_Classes False ?click True \<longrightarrow> toggle_write (JBool False) (JBool True)"
    using clicked[where v = JNull and s' = ?in] by - (elim conjE, assumption)
  with steps(1) have toggled: "toggle_write (JBool False) (JBool True)"
    by blast
  have "ui_step AuthButton ctx_initial ?click ?in \<longrightarrow>
      isAuthenticated_write (JBool (isAuthenticated ctx_initial)) (JBool (isAuthenticated ?in))
      \<and> theme ?in = theme ctx_initial"
    using clicked[where v = JNull and s' = ?in] by - (elim conjE, assumption)
  with steps(2) have logged_in: "isAuthenticated_write (JBool False) (JBool True)"
    by (simp add: ctx_initial_def)
  have "ui_step ThemedButton ctx_initial ?click ?dark \<longrightarrow>
      theme_write (JStr (theme ctx_initial)) (JStr (theme ?dark))
      \<and> isAuthenticated ?dark = isAuthenticated ctx_initial"
    using clicked[where v = JNull and s' = ?dark] by - (elim conjE, assumption)
  with steps(3) have darkened: "theme_write (JStr ''light'') (JStr ''dark'')"
    by (simp add: ctx_initial_def)
  have "ui_step Counter 0 ?click 1 \<longrightarrow> count_write (JNum 0) (JNum 1)"
    using clicked[where v = JNull and s' = ?in] by - (elim conjE, assumption)
  with steps(4) have counted: "count_write (JNum 0) (JNum 1)"
    by blast
  note typed = base[where ev = "Change ''input'' ''r''" and s = ctx_initial and s' = ctx_initial
      and v = JNull]
  have "ui_step Search [] (Change ''input'' ''r'') ''r'' \<longrightarrow> query_write (JStr []) (JStr ''r'')"
    using typed[where k = "''email''"] by - (elim conjE, assumption)
  with steps(5) have queried: "query_write (JStr []) (JStr ''r'')"
    by blast
  have "field (ControlledForm_handleChange ''email'' ''a@b.c'' ?form) ''email''
      = (if ''email'' = ''email'' then JStr ''a@b.c'' else field (JObj ?form) ''email'')"
    using typed[where k = "''email''"] by - (elim conjE, assumption)
  then have email: "field (ControlledForm_handleChange ''email'' ''a@b.c'' ?form) ''email''
      = JStr ''a@b.c''"
    by simp
  have "field (ControlledForm_handleChange ''email'' ''a@b.c'' ?form) ''name''
      = (if ''name'' = ''email'' then JStr ''a@b.c'' else field (JObj ?form) ''name'')"
    using typed[where k = "''name''"] by - (elim conjE, assumption)
  then have name: "field (ControlledForm_handleChange ''email'' ''a@b.c'' ?form) ''name'' = JStr []"
    by simp
  have start: "is_boolean (get initialState ''loading'')" "is_string (get initialState ''error'')"
    using typed[where k = "''name''"] by - (elim conjE, assumption)+
  have "?success \<in> {fetchDataRequest, ?success, fetchDataFailure (JStr ''Failed to fetch'')}
        \<and> is_boolean (get initialState ''loading'') \<and> is_string (get initialState ''error'')
      \<longrightarrow> is_boolean (get (dataReducer (Some initialState) ?success) ''loading'')
          \<and> is_string (get (dataReducer (Some initialState) ?success) ''error'')"
    using typed[where k = "''name''"] by - (elim conjE, assumption)
  with start have store:
    "is_boolean (get (dataReducer (Some initialState) ?success) ''loading'')"
    "is_string (get (dataReducer (Some initialState) ?success) ''error'')"
    by simp_all
  have payload: "get (dataReducer (Some initialState) ?success) ''data'' = JArr [JNum 7]"
    using typed[where k = "''name''"] by - (elim conjE, assumption)
  show ?thesis
    by (intro conjI)
      (fact reach boolean number string steps toggled logged_in darkened counted queried
        email name store payload)+
qed

subsection \<open>What triggers a change of state\<close>

text \<open>
  Claim C5 says that state changes only through a button's click. Two examples change it
  otherwise. \<open>Search\<close> takes its query from the change event of its input: typing \<open>r\<close>
  into the empty field makes the query \<open>r\<close>. The redux-thunk \<open>App\<close> dispatches \<open>fetchData\<close>
  when it mounts: the store's \<open>loading\<close> goes from false to true with no click at all.
\<close>

theorem state_changes_without_click:
  "Search_initial = []
   \<and> ui_step Search [] (Change ''input'' ''r'') ''r''
   \<and> \<not> is_button_click (Change ''input'' ''r'')
   \<and> Redux_App_step (initialState, Return) Mount
        (initialState(''loading'' \<mapsto> JBool True),
         Await_fetch ''https://api.example.com/data'' after_fetch)
   \<and> get initialState ''loading'' = JBool False
   \<and> \<not> is_button_click Mount"
  by (simp add: ui_step_def successors_Search Redux_App_step_def run_fetchData get_def
      initialState_def Search_initial_def)

text \<open>
  Claim C5, amended. In \<open>Counter\<close>, the \<open>useMemo\<close> demo, \<open>Parent\<close> of the \<open>useCallback\<close>
  demo, the context-api demo and the page of CSS-toggling demos, every step of the state is
  a click on a button. In \<open>Search\<close> the steps are exactly the change events of the input, and
  the new query is the value typed. In the redux-thunk \<open>App\<close> no step is a click: a step is
  the mount, or the settling of the promise of \<open>fetch\<close>, or that of \<open>response.json()\<close>.
\<close>

theorem transitions_by_event:
  "(ui_step Counter c ev c' \<longrightarrow> is_button_click ev)
   \<and> (ui_step WithUseMemo ms ev ms' \<longrightarrow> is_button_click ev)
   \<and> (ui_step Parent c ev c' \<longrightarrow> is_button_click ev)
   \<and> (ui_step Context_App s ev s' \<longrightarrow> is_button_click ev)
   \<and> (ui_step (CSS_App styles) p ev p' \<longrightarrow> is_button_click ev)
   \<and> (ui_step Search q ev q' \<longleftrightarrow> ev = Change ''input'' q')
   \<and> (Redux_App_step rs ev rs' \<longrightarrow>
        \<not> is_button_click ev
        \<and> (ev = Mount \<or> (\<exists>outcome. ev = Fetch_settled outcome)
            \<or> (\<exists>outcome. ev = Json_settled outcome)))"
  using Redux_App_step_event[of rs ev rs']
  by (auto simp: ui_step_def successors_Counter successors_WithUseMemo successors_Parent
      successors_Context_App successors_Navbar successors_ThemedButton successors_AuthButton
      successors_CSS_App successors_page successors_Search split: if_splits event.splits)

text \<open>
  Claim C5, amended, at the initial states: one step of each example, with the event that
  makes it.
\<close>

theorem transitions_by_event_witness:
  "ui_step Counter 0 (Click ''button'') 1
   \<and> ui_step WithUseMemo WithUseMemo_initial (Click ''button'') (WithUseMemo_initial\<lparr>count := 1\<rparr>)
   \<and> ui_step Parent 0 (Click ''button'') 1
   \<and> ui_step Context_App ctx_initial (Click ''button'') (login ctx_initial)
   \<and> ui_step (CSS_App (JObj [])) CSS_initial (Click ''button'') (CSS_initial\<lparr>primary := True\<rparr>)
   \<and> is_button_click (Click ''button'')
   \<and> ui_step Search [] (Change ''input'' ''r'') ''r''
   \<and> \<not> ui_step Search [] (Click ''button'') ''r''
   \<and> Redux_App_step (initialState, Return) Mount (run fetchData initialState)
   \<and> \<not> is_button_click Mount"
proof -
  let ?ev = "Click ''button''"
  have counter: "ui_step Counter 0 ?ev 1"
    by (simp add: ui_step_def successors_Counter js_add_exact)
  have memo: "ui_step WithUseMemo WithUseMemo_initial ?ev (WithUseMemo_initial\<lparr>count := 1\<rparr>)"
    by (simp add: ui_step_def successors_WithUseMemo WithUseMemo_initial_def js_add_exact)
  have parent: "ui_step Parent 0 ?ev 1"
    by (simp add: ui_step_def successors_Parent js_add_exact)
  have ctx: "ui_step Context_App ctx_initial ?ev (login ctx_initial)"
    by (simp add: ui_step_def successors_Context_App successors_AuthButton login_eq ctx_initial_def)
  have css: "ui_step (CSS_App (JObj [])) CSS_initial ?ev (CSS_initial\<lparr>primary := True\<rparr>)"
    by (simp add: ui_step_def successors_CSS_App successors_page CSS_initial_def)
  have mount: "Redux_App_step (initialState, Return) Mount (run fetchData initialState)"
    by (simp add: Redux_App_step_def)
  from counter transitions_by_event[where c = 0 and ev = ?ev and c' = 1]
  have click: "is_button_click ?ev"
    by blast
  from transitions_by_event[where q = "[]" and ev = "Change ''input'' ''r''" and q' = "''r''"]
  have typed: "ui_step Search [] (Change ''input'' ''r'') ''r''"
    by blast
  from transitions_by_event[where q = "[]" and ev = ?ev and q' = "''r''"]
  have not_clicked: "\<not> ui_step Search [] ?ev ''r''"
    by simp
  from mount transitions_by_event
    [where rs = "(initialState, Return)" and ev = Mount and rs' = "run fetchData initialState"]
  have no_click: "\<not> is_button_click Mount"
    by blast
  from counter memo parent ctx css mount click typed not_clicked no_click show ?thesis
    by blast
qed

subsection \<open>What waits for a promise\<close>

text \<open>
  Claim C6 says that every operation runs synchronously to its end and none awaits a result.
  \<open>fetchData\<close> awaits one: when the \<open>App\<close> mounts on the first store state, the thunk
  dispatches the request (\<open>loading\<close> becomes true) and is then suspended at the \<open>await\<close>
  of \<open>fetch\<close>, its success or failure action not yet dispatched.
\<close>

theorem fetchData_suspends_on_mount:
  "Redux_App_handle Mount (initialState, Return)
     = Some (initialState(''loading'' \<mapsto> JBool True),
             Await_fetch ''https://api.example.com/data'' after_fetch)
   \<and> is_suspended (Await_fetch ''https://api.example.com/data'' after_fetch)
   \<and> \<not> is_suspended Return"
  by (simp add: run_fetchData)

text \<open>
  Claim C6, amended. In the \<open>useState\<close> and context demos the spec names, event handling
  is synchronous. The body of every click or change handler (of \<open>Counter\<close>, the
  \<open>useMemo\<close> demo, \<open>Parent\<close> and \<open>Child\<close>, \<open>Search\<close>, the five CSS toggles,
  \<open>ThemedButton\<close> and \<open>AuthButton\<close>) is made of setter calls and logging only and
  registers no callback to be run later; the update that the rendered element carries is
  exactly the effect of that body; so the event has its next state in one step, with nothing
  left to run.

  Two examples are asynchronous. \<open>startTimer\<close> of \<open>Timer\<close>, while no interval is stored,
  registers an interval callback, which adds one to \<open>time\<close> later; \<open>stopTimer\<close> registers
  nothing. The redux-thunk thunk \<open>fetchData\<close> on mount dispatches the request, so that
  \<open>loading\<close> is true, and is suspended awaiting \<open>fetch\<close>. When that promise is rejected
  it dispatches the failure and ends; when it is fulfilled the thunk changes nothing and is
  suspended again, awaiting \<open>response.json()\<close>. When this second promise settles it
  dispatches the failure or the success and ends. Between two of these steps the store holds
  the intermediate state.
\<close>

theorem fetchData_phases:
  "Redux_App_handle Mount (st, Return)
     = Some (st(''loading'' \<mapsto> JBool True), Await_fetch ''https://api.example.com/data'' after_fetch)
   \<and> is_suspended (Await_fetch ''https://api.example.com/data'' after_fetch)
   \<and> Redux_App_handle (Fetch_settled (Rejected m)) (st', Await_fetch url after_fetch)
     = Some (st'(''loading'' \<mapsto> JBool False, ''data'' \<mapsto> JArr [], ''error'' \<mapsto> JStr m), Return)
   \<and> Redux_App_handle (Fetch_settled (Fulfilled r)) (st', Await_fetch url after_fetch)
     = Some (st', Await_json r after_json)
   \<and> is_suspended (Await_json r after_json)
   \<and> Redux_App_handle (Json_settled (Rejected m)) (st', Await_json r after_json)
     = Some (st'(''loading'' \<mapsto> JBool False, ''data'' \<mapsto> JArr [], ''error'' \<mapsto> JStr m), Return)
   \<and> Redux_App_handle (Json_settled (Fulfilled d)) (st', Await_json r after_json)
     = Some (st'(''loading'' \<mapsto> JBool False, ''data'' \<mapsto> d, ''error'' \<mapsto> JStr []), Return)
   \<and> \<not> is_suspended Return
   \<and> synchronous (Counter_onClick c)
   \<and> listeners (Counter c) = [(''button'', OnClick (effect (Counter_onClick c)))]
   \<and> synchronous (WithUseMemo_onClick ms)
   \<and> listeners (WithUseMemo ms) = [(''button'', OnClick (effect (WithUseMemo_onClick ms)))]
   \<and> synchronous (Parent_onClick c) \<and> synchronous (Parent_handleClick :: int statement list)
   \<and> listeners (Parent c)
       = [(''button'', OnClick (effect (Parent_onClick c))),
          (''button'', OnClick (effect Parent_handleClick))]
   \<and> synchronous (Search_handleChange v)
   \<and> listeners (Search q) = [(''input'', OnChange (\<lambda>typed. effect (Search_handleChange typed)))]
   \<and> synchronous (Using_Inline_Style_onClick b)
   \<and> listeners (Using_Inline_Style b) = [(''button'', OnClick (effect (Using_Inline_Style_onClick b)))]
   \<and> synchronous (Using_CSS_Classes_onClick b)
   \<and> listeners (Using_CSS_Classes b) = [(''button'', OnClick (effect (Using_CSS_Classes_onClick b)))]
   \<and> synchronous (Using_CSS_Modules_onClick b)
   \<and> listeners (Using_CSS_Modules styles b)
       = [(''button'', OnClick (effect (Using_CSS_Modules_onClick b)))]
   \<and> synchronous (Using_Styled_Components_onClick b)
   \<and> listeners (Using_Styled_Components b)
       = [(''button'', OnClick (effect (Using_Styled_Components_onClick b)))]
   \<and> synchronous (Using_Emotion_onClick b)
   \<and> listeners (Using_Emotion b) = [(''button'', OnClick (effect (Using_Emotion_onClick b)))]
   \<and> synchronous toggleTheme_body \<and> effect toggleTheme_body = toggleTheme
   \<and> listeners (ThemedButton s) = [(''button'', OnClick (effect toggleTheme_body))]
   \<and> synchronous login_body \<and> effect login_body = login
   \<and> synchronous logout_body \<and> effect logout_body = logout
   \<and> listeners (AuthButton s)
       = [(''button'', OnClick (effect (if isAuthenticated s then logout_body else login_body)))]
   \<and> listeners (Navbar s) = []
   \<and> successors Counter (Click ''button'') c = [js_add c 1]
   \<and> successors WithUseMemo (Click ''button'') ms = [ms\<lparr>count := js_add (count ms) 1\<rparr>]
   \<and> successors Parent (Click ''button'') c = [js_add c 1, c]
   \<and> successors ThemedButton (Click ''button'') s = [toggleTheme s]
   \<and> successors AuthButton (Click ''button'') s = [s\<lparr>isAuthenticated := \<not> isAuthenticated s\<rparr>]
   \<and> successors (CSS_App styles) (Click ''button'') p =
       [p\<lparr>inline_isActive := \<not> inline_isActive p\<rparr>, p\<lparr>isDark := \<not> isDark p\<rparr>,
        p\<lparr>isSuccess := \<not> isSuccess p\<rparr>, p\<lparr>primary := \<not> primary p\<rparr>,
        p\<lparr>emotion_isActive := \<not> emotion_isActive p\<rparr>]
   \<and> successors Search (Change ''input'' v) q = [v]
   \<and> registered (Timer_startTimer t)
       = (if timerRef t then []
          else [[Set_state (\<lambda>st. st\<lparr>time := js_add (time st) 1\<rparr>)]])
   \<and> \<not> synchronous (Timer_startTimer Timer_initial)
   \<and> synchronous Timer_stopTimer"
proof -
  have thunk:
    "Redux_App_handle Mount (st, Return)
       = Some (st(''loading'' \<mapsto> JBool True), Await_fetch ''https://api.example.com/data'' after_fetch)"
    "is_suspended (Await_fetch ''https://api.example.com/data'' after_fetch)"
    "Redux_App_handle (Fetch_settled (Rejected m)) (st', Await_fetch url after_fetch)
       = Some (st'(''loading'' \<mapsto> JBool False, ''data'' \<mapsto> JArr [], ''error'' \<mapsto> JStr m), Return)"
    "Redux_App_handle (Fetch_settled (Fulfilled r)) (st', Await_fetch url after_fetch)
       = Some (st', Await_json r after_json)"
    "is_suspended (Await_json r after_json)"
    "Redux_App_handle (Json_settled (Rejected m)) (st', Await_json r after_json)
       = Some (st'(''loading'' \<mapsto> JBool False, ''data'' \<mapsto> JArr [], ''error'' \<mapsto> JStr m), Return)"
    "Redux_App_handle (Json_settled (Fulfilled d)) (st', Await_json r after_json)
       = Some (st'(''loading'' \<mapsto> JBool False, ''data'' \<mapsto> d, ''error'' \<mapsto> JStr []), Return)"
    "\<not> is_suspended Return"
    by (simp_all add: run_thunk)
  have sync:
    "synchronous (Counter_onClick c)" "synchronous (WithUseMemo_onClick ms)"
    "synchronous (Parent_onClick c)" "synchronous (Parent_handleClick :: int statement list)"
    "synchronous (Search_handleChange v)"
    "synchronous (Using_Inline_Style_onClick b)" "synchronous (Using_CSS_Classes_onClick b)"
    "synchronous (Using_CSS_Modules_onClick b)" "synchronous (Using_Styled_Components_onClick b)"
    "synchronous (Using_Emotion_onClick b)"
    "synchronous toggleTheme_body" "synchronous login_body" "synchronous logout_body"
    by (simp_all add: synchronous_def body_defs)
  have effects:
    "effect toggleTheme_body = toggleTheme" "effect login_body = login"
    "effect logout_body = logout"
    by (simp_all add: body_defs effect_Set_state toggleTheme_def login_def logout_def)
  have wired:
    "listeners (Counter c) = [(''button'', OnClick (effect (Counter_onClick c)))]"
    "listeners (WithUseMemo ms) = [(''button'', OnClick (effect (WithUseMemo_onClick ms)))]"
    "listeners (Parent c)
       = [(''button'', OnClick (effect (Parent_onClick c))),
          (''button'', OnClick (effect Parent_handleClick))]"
    "listeners (Search q) = [(''input'', OnChange (\<lambda>typed. effect (Search_handleChange typed)))]"
    "listeners (Using_Inline_Style b) = [(''button'', OnClick (effect (Using_Inline_Style_onClick b)))]"
    "listeners (Using_CSS_Classes b) = [(''button'', OnClick (effect (Using_CSS_Classes_onClick b)))]"
    "listeners (Using_CSS_Modules styles b)
       = [(''button'', OnClick (effect (Using_CSS_Modules_onClick b)))]"
    "listeners (Using_Styled_Components b)
       = [(''button'', OnClick (effect (Using_Styled_Components_onClick b)))]"
    "listeners (Using_Emotion b) = [(''button'', OnClick (effect (Using_Emotion_onClick b)))]"
    by (simp_all add: body_defs effect_Set_state effect_Set_state_log effect_log
        Counter_def WithUseMemo_def Parent_def Child_def Search_def Using_Inline_Style_def
        Using_CSS_Classes_def Using_CSS_Modules_def Using_Styled_Components_def Button_def
        Using_Emotion_def)
  have wired_ctx:
    "listeners (ThemedButton s) = [(''button'', OnClick (effect toggleTheme_body))]"
    "listeners (AuthButton s)
       = [(''button'', OnClick (effect (if isAuthenticated s then logout_body else login_body)))]"
    "listeners (Navbar s) = []"
    by (simp_all add: effects ThemedButton_def AuthButton_def Navbar_def useTheme_def useAuth_def)
  have next_states:
    "successors Counter (Click ''button'') c = [js_add c 1]"
    "successors WithUseMemo (Click ''button'') ms = [ms\<lparr>count := js_add (count ms) 1\<rparr>]"
    "successors Parent (Click ''button'') c = [js_add c 1, c]"
    "successors ThemedButton (Click ''button'') s = [toggleTheme s]"
    "successors AuthButton (Click ''button'') s = [s\<lparr>isAuthenticated := \<not> isAuthenticated s\<rparr>]"
    "successors (CSS_App styles) (Click ''button'') p =
       [p\<lparr>inline_isActive := \<not> inline_isActive p\<rparr>, p\<lparr>isDark := \<not> isDark p\<rparr>,
        p\<lparr>isSuccess := \<not> isSuccess p\<rparr>, p\<lparr>primary := \<not> primary p\<rparr>,
        p\<lparr>emotion_isActive := \<not> emotion_isActive p\<rparr>]"
    "successors Search (Change ''input'' v) q = [v]"
    by (simp_all add: successors_Counter successors_WithUseMemo successors_Parent
        successors_ThemedButton successors_AuthButton successors_CSS_App successors_page
        successors_Search)
  have timer:
    "registered (Timer_startTimer t)
       = (if timerRef t then []
          else [[Set_state (\<lambda>st. st\<lparr>time := js_add (time st) 1\<rparr>)]])"
    "\<not> synchronous (Timer_startTimer Timer_initial)"
    "synchronous Timer_stopTimer"
    by (simp_all add: synchronous_def Timer_startTimer_def Timer_stopTimer_def Timer_initial_def)
  show ?thesis
    by (intro conjI) (fact thunk sync effects wired wired_ctx next_states timer)+
qed

text \<open>
  Claim C6, amended, on the first store state: the mount, then the two promises fulfilled
  with a one-element list as the body; and on \<open>Counter\<close> at \<open>0\<close>, whose click handler
  registers nothing and gives \<open>1\<close>, against \<open>startTimer\<close> on the initial \<open>Timer\<close>.
\<close>

theorem fetchData_phases_witness:
  "Redux_App_handle Mount (initialState, Return)
     = Some (initialState(''loading'' \<mapsto> JBool True),
             Await_fetch ''https://api.example.com/data'' after_fetch)
   \<and> Redux_App_handle (Fetch_settled (Fulfilled Response))
        (initialState(''loading'' \<mapsto> JBool True),
         Await_fetch ''https://api.example.com/data'' after_fetch)
     = Some (initialState(''loading'' \<mapsto> JBool True), Await_json Response after_json)
   \<and> Redux_App_handle (Json_settled (Fulfilled (JArr [JNum 7])))
        (initialState(''loading'' \<mapsto> JBool True), Await_json Response after_json)
     = Some (initialState(''loading'' \<mapsto> JBool False, ''data'' \<mapsto> JArr [JNum 7],
                          ''error'' \<mapsto> JStr []), Return)
   \<and> registered (Counter_onClick 0) = []
   \<and> successors Counter (Click ''button'') 0 = [1]
   \<and> registered (Timer_startTimer Timer_initial)
       = [[Set_state (\<lambda>st. st\<lparr>time := js_add (time st) 1\<rparr>)]]"
proof -
  let ?loading = "initialState(''loading'' \<mapsto> JBool True)"
  note phases = fetchData_phases
    [where st = initialState and st' = ?loading and m = "''Failed to fetch''"
       and url = "''https://api.example.com/data''" and r = Response and d = "JArr [JNum 7]"
       and c = 0 and ms = WithUseMemo_initial and v = "''r''" and q = "[]" and b = False
       and styles = "JObj []" and s = ctx_initial and p = CSS_initial and t = Timer_initial]
  have mount: "Redux_App_handle Mount (initialState, Return)
      = Some (?loading, Await_fetch ''https://api.example.com/data'' after_fetch)"
    using phases by - (elim conjE, assumption)
  have fetched: "Redux_App_handle (Fetch_settled (Fulfilled Response))
        (?loading, Await_fetch ''https://api.example.com/data'' after_fetch)
      = Some (?loading, Await_json Response after_json)"
    using phases by - (elim conjE, assumption)
  have "Redux_App_handle (Json_settled (Fulfilled (JArr [JNum 7]))) (?loading, Await_json Response after_json)
      = Some (?loading(''loading'' \<mapsto> JBool False, ''data'' \<mapsto> JArr [JNum 7], ''error'' \<mapsto> JStr []),
              Return)"
    using phases by - (elim conjE, assumption)
  then have parsed: "Redux_App_handle (Json_settled (Fulfilled (JArr [JNum 7])))
        (?loading, Await_json Response after_json)
      = Some (initialState(''loading'' \<mapsto> JBool False, ''data'' \<mapsto> JArr [JNum 7],
                           ''error'' \<mapsto> JStr []), Return)"
    by (simp only: fun_upd_upd)
  have "synchronous (Counter_onClick 0)"
    using phases by - (elim conjE, assumption)
  then have none_left: "registered (Counter_onClick 0) = []"
    by (simp add: synchronous_def)
  have "successors Counter (Click ''button'') 0 = [js_add 0 1]"
    using phases by - (elim conjE, assumption)
  then have one: "successors Counter (Click ''button'') 0 = [1]"
    by (simp add: js_add_exact)
  have "registered (Timer_startTimer Timer_initial)
      = (if timerRef Timer_initial then []
         else [[Set_state (\<lambda>st. st\<lparr>time := js_add (time st) 1\<rparr>)]])"
    using phases by - (elim conjE, assumption)
  then have interval: "registered (Timer_startTimer Timer_initial)
      = [[Set_state (\<lambda>st. st\<lparr>time := js_add (time st) 1\<rparr>)]]"
    by (simp add: Timer_initial_def)
  show ?thesis
    by (intro conjI) (fact mount fetched parsed none_left one interval)+
qed

end
